theory Spec2Isabelle
  imports Main "HOL-Library.Char_ord" "HOL-Library.List_Lexorder" "HOL-Library.Option_ord"
    "HOL-Library.Multiset"
begin

section \<open>Attendance bot: the ledger, the user directory, the settings store and the chat adapter\<close>

text \<open>
  A shallow embedding of \<^verbatim>\<open>src/app.py\<close>. The SQLite database is an explicit state
  (three tables), every function of the source takes the state and returns the new one,
  and the wall clock is an argument. A Python \<^verbatim>\<open>str\<close> is a \<^typ>\<open>string\<close> holding its UTF-8
  bytes, which is also how SQLite stores and compares \<^verbatim>\<open>TEXT\<close>.
\<close>

subsection \<open>String literals of the source\<close>

text \<open>
  The source's literals are Chinese text and emoji; each is written here as its UTF-8
  bytes, with an English gloss.
\<close>

definition msg_already_checked_in :: string where
  \<comment> \<open>check_in: "you have already checked in today!"\<close>
  "msg_already_checked_in =
     [CHR 0xE6, CHR 0x82, CHR 0xA8, CHR 0xE4, CHR 0xBB, CHR 0x8A, CHR 0xE5, CHR 0xA4,
     CHR 0xA9, CHR 0xE5, CHR 0xB7, CHR 0xB2, CHR 0xE7, CHR 0xBB, CHR 0x8F, CHR 0xE7,
     CHR 0xAD, CHR 0xBE, CHR 0xE5, CHR 0x88, CHR 0xB0, CHR 0xE8, CHR 0xBF, CHR 0x87,
     CHR 0xE4, CHR 0xBA, CHR 0x86, CHR 0xEF, CHR 0xBC, CHR 0x81]"

definition msg_check_in_ok_status :: string where
  \<comment> \<open>check_in: "check-in succeeded!", newline, "status:"\<close>
  "msg_check_in_ok_status =
     [CHR 0xE7, CHR 0xAD, CHR 0xBE, CHR 0xE5, CHR 0x88, CHR 0xB0, CHR 0xE6, CHR 0x88,
     CHR 0x90, CHR 0xE5, CHR 0x8A, CHR 0x9F, CHR 0xEF, CHR 0xBC, CHR 0x81, CHR 0x0A,
     CHR 0xE7, CHR 0x8A, CHR 0xB6, CHR 0xE6, CHR 0x80, CHR 0x81, CHR 0xEF, CHR 0xBC,
     CHR 0x9A]"

definition msg_check_in_ok_task :: string where
  \<comment> \<open>check_in: newline, "task:"\<close>
  "msg_check_in_ok_task =
     [CHR 0x0A, CHR 0xE4, CHR 0xBB, CHR 0xBB, CHR 0xE5, CHR 0x8A, CHR 0xA1, CHR 0xEF,
     CHR 0xBC, CHR 0x9A]"

definition msg_check_in_failed :: string where
  \<comment> \<open>check_in: "check-in failed, please retry"\<close>
  "msg_check_in_failed =
     [CHR 0xE7, CHR 0xAD, CHR 0xBE, CHR 0xE5, CHR 0x88, CHR 0xB0, CHR 0xE5, CHR 0xA4,
     CHR 0xB1, CHR 0xE8, CHR 0xB4, CHR 0xA5, CHR 0xEF, CHR 0xBC, CHR 0x8C, CHR 0xE8,
     CHR 0xAF, CHR 0xB7, CHR 0xE9, CHR 0x87, CHR 0x8D, CHR 0xE8, CHR 0xAF, CHR 0x95]"

definition msg_not_checked_in :: string where
  \<comment> \<open>check_out: "you have not checked in today!"\<close>
  "msg_not_checked_in =
     [CHR 0xE6, CHR 0x82, CHR 0xA8, CHR 0xE4, CHR 0xBB, CHR 0x8A, CHR 0xE5, CHR 0xA4,
     CHR 0xA9, CHR 0xE8, CHR 0xBF, CHR 0x98, CHR 0xE6, CHR 0xB2, CHR 0xA1, CHR 0xE6,
     CHR 0x9C, CHR 0x89, CHR 0xE7, CHR 0xAD, CHR 0xBE, CHR 0xE5, CHR 0x88, CHR 0xB0,
     CHR 0xEF, CHR 0xBC, CHR 0x81]"

definition msg_check_out_ok :: string where
  \<comment> \<open>check_out: "check-out succeeded!", newline, "today's completion:"\<close>
  "msg_check_out_ok =
     [CHR 0xE7, CHR 0xAD, CHR 0xBE, CHR 0xE9, CHR 0x80, CHR 0x80, CHR 0xE6, CHR 0x88,
     CHR 0x90, CHR 0xE5, CHR 0x8A, CHR 0x9F, CHR 0xEF, CHR 0xBC, CHR 0x81, CHR 0x0A,
     CHR 0xE4, CHR 0xBB, CHR 0x8A, CHR 0xE6, CHR 0x97, CHR 0xA5, CHR 0xE5, CHR 0xAE,
     CHR 0x8C, CHR 0xE6, CHR 0x88, CHR 0x90, CHR 0xE5, CHR 0xBA, CHR 0xA6, CHR 0xEF,
     CHR 0xBC, CHR 0x9A]"

definition msg_check_out_failed :: string where
  \<comment> \<open>check_out: "check-out failed, please retry"\<close>
  "msg_check_out_failed =
     [CHR 0xE7, CHR 0xAD, CHR 0xBE, CHR 0xE9, CHR 0x80, CHR 0x80, CHR 0xE5, CHR 0xA4,
     CHR 0xB1, CHR 0xE8, CHR 0xB4, CHR 0xA5, CHR 0xEF, CHR 0xBC, CHR 0x8C, CHR 0xE8,
     CHR 0xAF, CHR 0xB7, CHR 0xE9, CHR 0x87, CHR 0x8D, CHR 0xE8, CHR 0xAF, CHR 0x95]"

definition evening_done :: string where
  \<comment> \<open>check_out: the fixed evening status, "work completed"\<close>
  "evening_done =
     [CHR 0xE5, CHR 0xB7, CHR 0xB2, CHR 0xE5, CHR 0xAE, CHR 0x8C, CHR 0xE6, CHR 0x88,
     CHR 0x90, CHR 0xE5, CHR 0xB7, CHR 0xA5, CHR 0xE4, CHR 0xBD, CHR 0x9C]"

definition status_office :: string where
  \<comment> \<open>status "in the office"\<close>
  "status_office =
     [CHR 0xE5, CHR 0x8A, CHR 0x9E, CHR 0xE5, CHR 0x85, CHR 0xAC, CHR 0xE5, CHR 0xAE,
     CHR 0xA4, CHR 0xE5, CHR 0x9D, CHR 0x90, CHR 0xE7, CHR 0x8F, CHR 0xAD]"

definition status_outdoor :: string where
  \<comment> \<open>status "filming outside"\<close>
  "status_outdoor =
     [CHR 0xE5, CHR 0xA4, CHR 0x96, CHR 0xE5, CHR 0x87, CHR 0xBA, CHR 0xE6, CHR 0x8B,
     CHR 0x8D, CHR 0xE6, CHR 0x91, CHR 0x84]"

definition status_home :: string where
  \<comment> \<open>status "working from home"\<close>
  "status_home =
     [CHR 0xE5, CHR 0xB1, CHR 0x85, CHR 0xE5, CHR 0xAE, CHR 0xB6, CHR 0xE5, CHR 0x8A,
     CHR 0x9E, CHR 0xE5, CHR 0x85, CHR 0xAC]"

definition status_meeting :: string where
  \<comment> \<open>status "in a meeting"\<close>
  "status_meeting =
     [CHR 0xE4, CHR 0xBC, CHR 0x9A, CHR 0xE8, CHR 0xAE, CHR 0xAE, CHR 0xE4, CHR 0xB8,
     CHR 0xAD]"

definition icon_office :: string where
  \<comment> \<open>U+1F3E2\<close>
  "icon_office =
     [CHR 0xF0, CHR 0x9F, CHR 0x8F, CHR 0xA2]"

definition icon_outdoor :: string where
  \<comment> \<open>U+1F4F9\<close>
  "icon_outdoor =
     [CHR 0xF0, CHR 0x9F, CHR 0x93, CHR 0xB9]"

definition icon_home :: string where
  \<comment> \<open>U+1F4BB\<close>
  "icon_home =
     [CHR 0xF0, CHR 0x9F, CHR 0x92, CHR 0xBB]"

definition icon_meeting :: string where
  \<comment> \<open>U+1F4DE\<close>
  "icon_meeting =
     [CHR 0xF0, CHR 0x9F, CHR 0x93, CHR 0x9E]"

definition icon_pin :: string where
  \<comment> \<open>U+1F4CC\<close>
  "icon_pin =
     [CHR 0xF0, CHR 0x9F, CHR 0x93, CHR 0x8C]"

definition task_not_filled :: string where
  \<comment> \<open>report: "task not filled in"\<close>
  "task_not_filled =
     [CHR 0xE6, CHR 0x9C, CHR 0xAA, CHR 0xE5, CHR 0xA1, CHR 0xAB, CHR 0xE5, CHR 0x86,
     CHR 0x99, CHR 0xE4, CHR 0xBB, CHR 0xBB, CHR 0xE5, CHR 0x8A, CHR 0xA1]"

definition progress_all_normal :: string where
  \<comment> \<open>report: the canonical progress status "all normal"\<close>
  "progress_all_normal =
     [CHR 0xE4, CHR 0xB8, CHR 0x80, CHR 0xE5, CHR 0x88, CHR 0x87, CHR 0xE6, CHR 0xAD,
     CHR 0xA3, CHR 0xE5, CHR 0xB8, CHR 0xB8]"

definition icon_green :: string where
  \<comment> \<open>U+1F7E2\<close>
  "icon_green =
     [CHR 0xF0, CHR 0x9F, CHR 0x9F, CHR 0xA2]"

definition icon_red :: string where
  \<comment> \<open>U+1F534\<close>
  "icon_red =
     [CHR 0xF0, CHR 0x9F, CHR 0x94, CHR 0xB4]"

definition report_head_pre :: string where
  \<comment> \<open>report: chart icon, "**where the team is today** - "\<close>
  "report_head_pre =
     [CHR 0xF0, CHR 0x9F, CHR 0x93, CHR 0x8A] @ '' **'' @ [CHR 0xE4, CHR 0xBB, CHR 0x8A,
     CHR 0xE6, CHR 0x97, CHR 0xA5, CHR 0xE5, CHR 0x9B, CHR 0xA2, CHR 0xE9, CHR 0x98,
     CHR 0x9F, CHR 0xE5, CHR 0x8E, CHR 0xBB, CHR 0xE5, CHR 0x90, CHR 0x91] @ ''** - ''"

definition bullet :: string where
  \<comment> \<open>U+2022 and a space\<close>
  "bullet =
     [CHR 0xE2, CHR 0x80, CHR 0xA2] @ '' ''"

definition task_line_pre :: string where
  \<comment> \<open>report: two spaces, memo icon, space\<close>
  "task_line_pre =
     ''  '' @ [CHR 0xF0, CHR 0x9F, CHR 0x93, CHR 0x9D] @ '' ''"

definition progress_label :: string where
  \<comment> \<open>report: " progress: "\<close>
  "progress_label =
     '' '' @ [CHR 0xE8, CHR 0xBF, CHR 0x9B, CHR 0xE5, CHR 0xBA, CHR 0xA6] @ '': ''"

definition checked_out_pre :: string where
  \<comment> \<open>report: two spaces, clock icon, " checked out ("\<close>
  "checked_out_pre =
     ''  '' @ [CHR 0xE2, CHR 0x8F, CHR 0xB0] @ '' '' @ [CHR 0xE5, CHR 0xB7, CHR 0xB2,
     CHR 0xE7, CHR 0xAD, CHR 0xBE, CHR 0xE9, CHR 0x80, CHR 0x80] @ '' (''"

definition not_checked_in_title :: string where
  \<comment> \<open>report: clock icon, " **not checked in**", newline\<close>
  "not_checked_in_title =
     [CHR 0xE2, CHR 0x8F, CHR 0xB0] @ '' **'' @ [CHR 0xE6, CHR 0x9C, CHR 0xAA, CHR 0xE7,
     CHR 0xAD, CHR 0xBE, CHR 0xE5, CHR 0x88, CHR 0xB0] @ ''**'' @ [CHR 0x0A]"

definition unknown_user :: string where
  \<comment> \<open>"unknown user"\<close>
  "unknown_user =
     [CHR 0xE6, CHR 0x9C, CHR 0xAA, CHR 0xE7, CHR 0x9F, CHR 0xA5, CHR 0xE7, CHR 0x94,
     CHR 0xA8, CHR 0xE6, CHR 0x88, CHR 0xB7]"

definition daily_work :: string where
  \<comment> \<open>feishu_callback: the fixed task label "daily work"\<close>
  "daily_work =
     [CHR 0xE6, CHR 0x97, CHR 0xA5, CHR 0xE5, CHR 0xB8, CHR 0xB8, CHR 0xE5, CHR 0xB7,
     CHR 0xA5, CHR 0xE4, CHR 0xBD, CHR 0x9C]"

definition tag_video_editing :: string where
  \<comment> \<open>task tag "video editing"\<close>
  "tag_video_editing =
     [CHR 0xE8, CHR 0xA7, CHR 0x86, CHR 0xE9, CHR 0xA2, CHR 0x91, CHR 0xE5, CHR 0x89,
     CHR 0xAA, CHR 0xE8, CHR 0xBE, CHR 0x91]"

definition tag_copywriting :: string where
  \<comment> \<open>task tag "copywriting"\<close>
  "tag_copywriting =
     [CHR 0xE6, CHR 0x96, CHR 0x87, CHR 0xE6, CHR 0xA1, CHR 0x88, CHR 0xE6, CHR 0x92,
     CHR 0xB0, CHR 0xE5, CHR 0x86, CHR 0x99]"

definition tag_filming :: string where
  \<comment> \<open>task tag "filming material"\<close>
  "tag_filming =
     [CHR 0xE7, CHR 0xB4, CHR 0xA0, CHR 0xE6, CHR 0x9D, CHR 0x90, CHR 0xE6, CHR 0x8B,
     CHR 0x8D, CHR 0xE6, CHR 0x91, CHR 0x84]"

definition kw_checkin :: string where
  \<comment> \<open>command "check in"\<close>
  "kw_checkin =
     [CHR 0xE7, CHR 0xAD, CHR 0xBE, CHR 0xE5, CHR 0x88, CHR 0xB0]"

definition kw_checkout :: string where
  \<comment> \<open>command "check out"\<close>
  "kw_checkout =
     [CHR 0xE7, CHR 0xAD, CHR 0xBE, CHR 0xE9, CHR 0x80, CHR 0x80]"

definition kw_report :: string where
  \<comment> \<open>command "daily report"\<close>
  "kw_report =
     [CHR 0xE6, CHR 0x97, CHR 0xA5, CHR 0xE6, CHR 0x8A, CHR 0xA5]"

definition kw_help :: string where
  \<comment> \<open>command "help"\<close>
  "kw_help =
     [CHR 0xE5, CHR 0xB8, CHR 0xAE, CHR 0xE5, CHR 0x8A, CHR 0xA9]"

definition card_checkin_title :: string where
  \<comment> \<open>check-in card: "good morning! please check in"\<close>
  "card_checkin_title =
     [CHR 0xE2, CHR 0x98, CHR 0x80, CHR 0xEF, CHR 0xB8, CHR 0x8F] @ '' '' @ [CHR 0xE6,
     CHR 0x97, CHR 0xA9, CHR 0xE5, CHR 0xAE, CHR 0x89, CHR 0xEF, CHR 0xBC, CHR 0x81,
     CHR 0xE8, CHR 0xAF, CHR 0xB7, CHR 0xE7, CHR 0xAD, CHR 0xBE, CHR 0xE5, CHR 0x88,
     CHR 0xB0]"

definition card_location_pre :: string where
  \<comment> \<open>check-in card: pin icon, " current location:"\<close>
  "card_location_pre =
     [CHR 0xF0, CHR 0x9F, CHR 0x93, CHR 0x8D] @ '' '' @ [CHR 0xE5, CHR 0xBD, CHR 0x93,
     CHR 0xE5, CHR 0x89, CHR 0x8D, CHR 0xE5, CHR 0xAE, CHR 0x9A, CHR 0xE4, CHR 0xBD,
     CHR 0x8D, CHR 0xEF, CHR 0xBC, CHR 0x9A]"

definition location_not_set :: string where
  \<comment> \<open>check-in card: "company address not set"\<close>
  "location_not_set =
     [CHR 0xE5, CHR 0x85, CHR 0xAC, CHR 0xE5, CHR 0x8F, CHR 0xB8, CHR 0xE5, CHR 0x9C,
     CHR 0xB0, CHR 0xE5, CHR 0x9D, CHR 0x80, CHR 0xE6, CHR 0x9C, CHR 0xAA, CHR 0xE8,
     CHR 0xAE, CHR 0xBE, CHR 0xE7, CHR 0xBD, CHR 0xAE]"

definition card_choose_status :: string where
  \<comment> \<open>check-in card: newline, "choose your status:"\<close>
  "card_choose_status =
     [CHR 0x0A, CHR 0xE9, CHR 0x80, CHR 0x89, CHR 0xE6, CHR 0x8B, CHR 0xA9, CHR 0xE6,
     CHR 0x82, CHR 0xA8, CHR 0xE7, CHR 0x9A, CHR 0x84, CHR 0xE7, CHR 0x8A, CHR 0xB6,
     CHR 0xE6, CHR 0x80, CHR 0x81, CHR 0xEF, CHR 0xBC, CHR 0x9A]"

definition card_checkout_title :: string where
  \<comment> \<open>check-out card: "well done! please check out"\<close>
  "card_checkout_title =
     [CHR 0xF0, CHR 0x9F, CHR 0x8C, CHR 0x99] @ '' '' @ [CHR 0xE8, CHR 0xBE, CHR 0x9B,
     CHR 0xE8, CHR 0x8B, CHR 0xA6, CHR 0xE4, CHR 0xBA, CHR 0x86, CHR 0xEF, CHR 0xBC,
     CHR 0x81, CHR 0xE8, CHR 0xAF, CHR 0xB7, CHR 0xE7, CHR 0xAD, CHR 0xBE, CHR 0xE9,
     CHR 0x80, CHR 0x80]"

definition card_choose_completion :: string where
  \<comment> \<open>check-out card: "please choose the completion:"\<close>
  "card_choose_completion =
     [CHR 0xE8, CHR 0xAF, CHR 0xB7, CHR 0xE9, CHR 0x80, CHR 0x89, CHR 0xE6, CHR 0x8B,
     CHR 0xA9, CHR 0xE5, CHR 0xAE, CHR 0x8C, CHR 0xE6, CHR 0x88, CHR 0x90, CHR 0xE5,
     CHR 0xBA, CHR 0xA6, CHR 0xEF, CHR 0xBC, CHR 0x9A]"

definition report_title :: string where
  \<comment> \<open>rich message title: chart icon, " where the team is today"\<close>
  "report_title =
     [CHR 0xF0, CHR 0x9F, CHR 0x93, CHR 0x8A] @ '' '' @ [CHR 0xE4, CHR 0xBB, CHR 0x8A,
     CHR 0xE6, CHR 0x97, CHR 0xA5, CHR 0xE5, CHR 0x9B, CHR 0xA2, CHR 0xE9, CHR 0x98,
     CHR 0x9F, CHR 0xE5, CHR 0x8E, CHR 0xBB, CHR 0xE5, CHR 0x90, CHR 0x91]"

definition default_bot_name :: string where
  \<comment> \<open>"attendance assistant"\<close>
  "default_bot_name =
     [CHR 0xE8, CHR 0x80, CHR 0x83, CHR 0xE5, CHR 0x8B, CHR 0xA4, CHR 0xE5, CHR 0xB0,
     CHR 0x8F, CHR 0xE5, CHR 0x8A, CHR 0xA9, CHR 0xE6, CHR 0x89, CHR 0x8B]"

definition help_pre :: string where
  \<comment> \<open>help text before the bot name\<close>
  "help_pre =
     [CHR 0xF0, CHR 0x9F, CHR 0x9A, CHR 0x97] @ '' **''"

definition help_post :: string where
  \<comment> \<open>help text after the bot name: the commands and the four statuses\<close>
  "help_post =
     [CHR 0xE5, CHR 0xB8, CHR 0xAE, CHR 0xE5, CHR 0x8A, CHR 0xA9] @ ''**'' @ [CHR 0x0A,
     CHR 0x0A] @ ''*'' @ [CHR 0xE5, CHR 0x8F, CHR 0xAF, CHR 0xE7, CHR 0x94, CHR 0xA8,
     CHR 0xE5, CHR 0x91, CHR 0xBD, CHR 0xE4, CHR 0xBB, CHR 0xA4, CHR 0xEF, CHR 0xBC,
     CHR 0x9A] @ ''*'' @ [CHR 0x0A, CHR 0xE2, CHR 0x80, CHR 0xA2] @ '' '' @ [CHR 0xE7,
     CHR 0xAD, CHR 0xBE, CHR 0xE5, CHR 0x88, CHR 0xB0] @ '' - '' @ [CHR 0xE6, CHR 0xAF,
     CHR 0x8F, CHR 0xE6, CHR 0x97, CHR 0xA5, CHR 0xE7, CHR 0xAD, CHR 0xBE, CHR 0xE5,
     CHR 0x88, CHR 0xB0, CHR 0x0A, CHR 0xE2, CHR 0x80, CHR 0xA2] @ '' '' @ [CHR 0xE7,
     CHR 0xAD, CHR 0xBE, CHR 0xE9, CHR 0x80, CHR 0x80] @ '' - '' @ [CHR 0xE6, CHR 0xAF,
     CHR 0x8F, CHR 0xE6, CHR 0x97, CHR 0xA5, CHR 0xE7, CHR 0xAD, CHR 0xBE, CHR 0xE9,
     CHR 0x80, CHR 0x80, CHR 0x0A, CHR 0xE2, CHR 0x80, CHR 0xA2] @ '' '' @ [CHR 0xE6,
     CHR 0x97, CHR 0xA5, CHR 0xE6, CHR 0x8A, CHR 0xA5] @ '' - '' @ [CHR 0xE6, CHR 0x9F,
     CHR 0xA5, CHR 0xE7, CHR 0x9C, CHR 0x8B, CHR 0xE4, CHR 0xBB, CHR 0x8A, CHR 0xE6,
     CHR 0x97, CHR 0xA5, CHR 0xE6, CHR 0xB1, CHR 0x87, CHR 0xE6, CHR 0x80, CHR 0xBB,
     CHR 0x0A, CHR 0xE2, CHR 0x80, CHR 0xA2] @ '' '' @ [CHR 0xE5, CHR 0xB8, CHR 0xAE,
     CHR 0xE5, CHR 0x8A, CHR 0xA9] @ '' - '' @ [CHR 0xE6, CHR 0x9F, CHR 0xA5, CHR 0xE7,
     CHR 0x9C, CHR 0x8B, CHR 0xE5, CHR 0xB8, CHR 0xAE, CHR 0xE5, CHR 0x8A, CHR 0xA9,
     CHR 0xE4, CHR 0xBF, CHR 0xA1, CHR 0xE6, CHR 0x81, CHR 0xAF, CHR 0x0A, CHR 0x0A] @ ''*''
     @ [CHR 0xE8, CHR 0x80, CHR 0x83, CHR 0xE5, CHR 0x8B, CHR 0xA4, CHR 0xE7, CHR 0x8A,
     CHR 0xB6, CHR 0xE6, CHR 0x80, CHR 0x81, CHR 0xEF, CHR 0xBC, CHR 0x9A] @ ''*'' @
     [CHR 0x0A, CHR 0xF0, CHR 0x9F, CHR 0x8F, CHR 0xA2] @ '' '' @ [CHR 0xE5, CHR 0x8A,
     CHR 0x9E, CHR 0xE5, CHR 0x85, CHR 0xAC, CHR 0xE5, CHR 0xAE, CHR 0xA4, CHR 0xE5,
     CHR 0x9D, CHR 0x90, CHR 0xE7, CHR 0x8F, CHR 0xAD, CHR 0x0A, CHR 0xF0, CHR 0x9F,
     CHR 0x93, CHR 0xB9] @ '' '' @ [CHR 0xE5, CHR 0xA4, CHR 0x96, CHR 0xE5, CHR 0x87,
     CHR 0xBA, CHR 0xE6, CHR 0x8B, CHR 0x8D, CHR 0xE6, CHR 0x91, CHR 0x84, CHR 0x0A,
     CHR 0xF0, CHR 0x9F, CHR 0x92, CHR 0xBB] @ '' '' @ [CHR 0xE5, CHR 0xB1, CHR 0x85,
     CHR 0xE5, CHR 0xAE, CHR 0xB6, CHR 0xE5, CHR 0x8A, CHR 0x9E, CHR 0xE5, CHR 0x85,
     CHR 0xAC, CHR 0x0A, CHR 0xF0, CHR 0x9F, CHR 0x93, CHR 0x9E] @ '' '' @ [CHR 0xE4,
     CHR 0xBC, CHR 0x9A, CHR 0xE8, CHR 0xAE, CHR 0xAE, CHR 0xE4, CHR 0xB8, CHR 0xAD]"

definition echo_pre :: string where
  \<comment> \<open>echo: "message received:"\<close>
  "echo_pre =
     [CHR 0xE6, CHR 0x94, CHR 0xB6, CHR 0xE5, CHR 0x88, CHR 0xB0, CHR 0xE6, CHR 0xB6,
     CHR 0x88, CHR 0xE6, CHR 0x81, CHR 0xAF, CHR 0xEF, CHR 0xBC, CHR 0x9A]"

definition echo_post :: string where
  \<comment> \<open>echo: two newlines, "send 'help' to see the commands"\<close>
  "echo_post =
     [CHR 0x0A, CHR 0x0A, CHR 0xE5, CHR 0x8F, CHR 0x91, CHR 0xE9, CHR 0x80, CHR 0x81,
     CHR 0xE3, CHR 0x80, CHR 0x8C, CHR 0xE5, CHR 0xB8, CHR 0xAE, CHR 0xE5, CHR 0x8A,
     CHR 0xA9, CHR 0xE3, CHR 0x80, CHR 0x8D, CHR 0xE6, CHR 0x9F, CHR 0xA5, CHR 0xE7,
     CHR 0x9C, CHR 0x8B, CHR 0xE5, CHR 0x8F, CHR 0xAF, CHR 0xE7, CHR 0x94, CHR 0xA8,
     CHR 0xE5, CHR 0x91, CHR 0xBD, CHR 0xE4, CHR 0xBB, CHR 0xA4]"

definition default_welcome_message :: string where
  \<comment> \<open>"hello! I am the attendance assistant"\<close>
  "default_welcome_message =
     [CHR 0xE4, CHR 0xBD, CHR 0xA0, CHR 0xE5, CHR 0xA5, CHR 0xBD, CHR 0xEF, CHR 0xBC,
     CHR 0x81, CHR 0xE6, CHR 0x88, CHR 0x91, CHR 0xE6, CHR 0x98, CHR 0xAF, CHR 0xE8,
     CHR 0x80, CHR 0x83, CHR 0xE5, CHR 0x8B, CHR 0xA4, CHR 0xE5, CHR 0xB0, CHR 0x8F,
     CHR 0xE5, CHR 0x8A, CHR 0xA9, CHR 0xE6, CHR 0x89, CHR 0x8B]"

definition icon_yellow :: string where
  \<comment> \<open>U+1F7E1\<close>
  "icon_yellow =
     [CHR 0xF0, CHR 0x9F, CHR 0x9F, CHR 0xA1]"

definition icon_star :: string where
  \<comment> \<open>U+2B50\<close>
  "icon_star =
     [CHR 0xE2, CHR 0xAD, CHR 0x90]"

definition default_task_tags_json :: string where
  \<comment> \<open>init_db: json.dumps of the six default task tags (ASCII: every code point above U+007E is escaped)\<close>
  "default_task_tags_json =
     ''['' @ [CHR 0x22, CHR 0x5C] @ ''u89c6'' @ [CHR 0x5C] @ ''u9891'' @ [CHR 0x5C] @
     ''u526a'' @ [CHR 0x5C] @ ''u8f91'' @ [CHR 0x22] @ '', '' @ [CHR 0x22, CHR 0x5C] @
     ''u6587'' @ [CHR 0x5C] @ ''u6848'' @ [CHR 0x5C] @ ''u64b0'' @ [CHR 0x5C] @ ''u5199'' @
     [CHR 0x22] @ '', '' @ [CHR 0x22, CHR 0x5C] @ ''u7d20'' @ [CHR 0x5C] @ ''u6750'' @
     [CHR 0x5C] @ ''u62cd'' @ [CHR 0x5C] @ ''u6444'' @ [CHR 0x22] @ '', '' @ [CHR 0x22,
     CHR 0x5C] @ ''u5b57'' @ [CHR 0x5C] @ ''u5e55'' @ [CHR 0x5C] @ ''u538b'' @ [CHR 0x5C] @
     ''u5236'' @ [CHR 0x22] @ '', '' @ [CHR 0x22, CHR 0x5C] @ ''u5c01'' @ [CHR 0x5C] @
     ''u9762'' @ [CHR 0x5C] @ ''u8bbe'' @ [CHR 0x5C] @ ''u8ba1'' @ [CHR 0x22] @ '', '' @
     [CHR 0x22, CHR 0x5C] @ ''u5e73'' @ [CHR 0x5C] @ ''u53f0'' @ [CHR 0x5C] @ ''u53d1'' @
     [CHR 0x5C] @ ''u5e03'' @ [CHR 0x22] @ '']''"

definition default_status_options_json :: string where
  \<comment> \<open>init_db: json.dumps of the four default status options (ASCII: every code point above U+007E is escaped)\<close>
  "default_status_options_json =
     ''['' @ [CHR 0x22, CHR 0x5C] @ ''u529e'' @ [CHR 0x5C] @ ''u516c'' @ [CHR 0x5C] @
     ''u5ba4'' @ [CHR 0x5C] @ ''u5750'' @ [CHR 0x5C] @ ''u73ed'' @ [CHR 0x22] @ '', '' @
     [CHR 0x22, CHR 0x5C] @ ''u5916'' @ [CHR 0x5C] @ ''u51fa'' @ [CHR 0x5C] @ ''u62cd'' @
     [CHR 0x5C] @ ''u6444'' @ [CHR 0x22] @ '', '' @ [CHR 0x22, CHR 0x5C] @ ''u5c45'' @
     [CHR 0x5C] @ ''u5bb6'' @ [CHR 0x5C] @ ''u529e'' @ [CHR 0x5C] @ ''u516c'' @ [CHR 0x22] @
     '', '' @ [CHR 0x22, CHR 0x5C] @ ''u4f1a'' @ [CHR 0x5C] @ ''u8bae'' @ [CHR 0x5C] @
     ''u4e2d'' @ [CHR 0x22] @ '']''"

subsection \<open>Python values\<close>

text \<open>
  What \<^verbatim>\<open>json.loads\<close> returns and what a settings dictionary holds. Floats are left out.
\<close>

datatype json = JNull | JBool bool | JInt int | JStr string | JList "json list"
  | JObj "(string \<times> json) list"

text \<open>
  The exceptions of the source: a constraint of the schema (\<^verbatim>\<open>sqlite3.IntegrityError\<close>),
  a parameter that \<^verbatim>\<open>sqlite3\<close> cannot bind (\<^verbatim>\<open>OverflowError\<close> for an integer outside 64
  bits, \<^verbatim>\<open>UnicodeEncodeError\<close> for a string with no UTF-8 encoding), a failed
  \<^verbatim>\<open>json.loads\<close> and a \<^verbatim>\<open>TypeError\<close>.
\<close>

datatype exn = IntegrityError | OverflowError | UnicodeEncodeError | JSONDecodeError | TypeError

text \<open>
  A \<^typ>\<open>string\<close> stands for a \<^verbatim>\<open>str\<close> that has a UTF-8 encoding, which is what the tables
  can hold. A \<^verbatim>\<open>str\<close> read from a request body can also hold a lone surrogate (the JSON
  escape of U+D800 alone, say); it has no encoding, and binding it to a statement raises.
  \<open>pystr\<close> is either kind of \<^verbatim>\<open>str\<close>; a value that is not a \<^verbatim>\<open>str\<close> is outside both
  types.
\<close>

datatype pystr = Str string | Unencodable

definition sqlite_int :: "int \<Rightarrow> bool" where
  \<comment> \<open>the integers \<^verbatim>\<open>sqlite3\<close> can bind: those of 64 bits, signed\<close>
  "sqlite_int i = (- (2 ^ 63) \<le> i \<and> i < 2 ^ 63)"

text \<open>
  The functions of Python's library that the source calls and that are not part of the
  repository are arguments of the model: \<^verbatim>\<open>json.loads\<close> (\<open>None\<close> when it raises) and
  \<^verbatim>\<open>repr\<close> of a list or a dictionary. Every theorem holds for whatever they compute.
\<close>

record pylib =
  json_loads :: "string \<Rightarrow> json option"
  py_repr :: "json \<Rightarrow> string"

fun str_nat :: "nat \<Rightarrow> string" where
  "str_nat n = (if n < 10 then [char_of (48 + n)]
                else str_nat (n div 10) @ [char_of (48 + n mod 10)])"

declare str_nat.simps [simp del]

definition str_int :: "int \<Rightarrow> string" where
  \<comment> \<open>\<^verbatim>\<open>str(i)\<close>, which is what an f-string writes for an \<^verbatim>\<open>int\<close>\<close>
  "str_int i = (if i < 0 then ''-'' @ str_nat (nat (- i)) else str_nat (nat i))"

definition fmt_str :: "string option \<Rightarrow> string" where
  \<comment> \<open>an f-string field holding a \<^verbatim>\<open>str\<close> or \<^verbatim>\<open>None\<close>\<close>
  "fmt_str v = (case v of None \<Rightarrow> ''None'' | Some s \<Rightarrow> s)"

definition fmt_int :: "int option \<Rightarrow> string" where
  \<comment> \<open>an f-string field holding an \<^verbatim>\<open>int\<close> or \<^verbatim>\<open>None\<close>\<close>
  "fmt_int v = (case v of None \<Rightarrow> ''None'' | Some i \<Rightarrow> str_int i)"

definition truthy :: "string option \<Rightarrow> bool" where
  \<comment> \<open>Python's truth value of a \<^verbatim>\<open>str\<close> or \<^verbatim>\<open>None\<close>\<close>
  "truthy v = (case v of None \<Rightarrow> False | Some s \<Rightarrow> s \<noteq> [])"

definition py_str :: "pylib \<Rightarrow> json \<Rightarrow> string" where
  \<comment> \<open>\<^verbatim>\<open>str(v)\<close> of a decoded value, as an f-string writes it\<close>
  "py_str lib v = (case v of
       JNull \<Rightarrow> ''None''
     | JBool b \<Rightarrow> (if b then ''True'' else ''False'')
     | JInt i \<Rightarrow> str_int i
     | JStr s \<Rightarrow> s
     | _ \<Rightarrow> py_repr lib v)"

subsection \<open>The clock\<close>

text \<open>
  One reading of the clock, as the four formats the source reads it in:
  \<^verbatim>\<open>date.today().strftime("%Y-%m-%d")\<close>, \<^verbatim>\<open>datetime.now().strftime("%H:%M:%S")\<close>,
  \<^verbatim>\<open>datetime.now().strftime("%Y-%m-%d %H:%M:%S")\<close> and SQLite's \<^verbatim>\<open>CURRENT_TIMESTAMP\<close>.
\<close>

record clock =
  today :: string
  now_time :: string
  now_stamp :: string
  current_timestamp :: string

definition get_today_date :: "clock \<Rightarrow> string" where
  "get_today_date clk = today clk"

definition get_current_time :: "clock \<Rightarrow> string" where
  "get_current_time clk = now_time clk"

subsection \<open>The database\<close>

text \<open>
  The three tables of \<^verbatim>\<open>init_db\<close>. A column without \<^verbatim>\<open>NOT NULL\<close> is an option
  (\<open>None\<close> is \<^verbatim>\<open>NULL\<close>). Each table is the list of its rows in rowid order, which is the
  order a \<^verbatim>\<open>SELECT\<close> without \<^verbatim>\<open>ORDER BY\<close> returns them in. \<open>attendance_seq\<close> is the
  \<^verbatim>\<open>AUTOINCREMENT\<close> counter of the attendance table.
\<close>

record attendance_row =
  row_id :: nat
  user_id :: string
  user_name :: string
  date :: string
  check_in_time :: "string option"
  check_out_time :: "string option"
  morning_status :: "string option"
  evening_status :: "string option"
  location :: "string option"
  task :: "string option"
  tasks_json :: "string option"
  completion :: "int option"
  progress_status :: "string option"
  work_summary :: "string option"
  created_at :: "string option"

record user_row =
  u_user_id :: string
  u_user_name :: string
  is_active :: int

record setting_row =
  setting_value :: string
  updated_at :: "string option"

record db =
  attendance :: "attendance_row list"
  attendance_seq :: nat
  users :: "user_row list"
  settings :: "string \<rightharpoonup> setting_row"

definition empty_db :: db where
  \<comment> \<open>the tables as \<^verbatim>\<open>CREATE TABLE IF NOT EXISTS\<close> first makes them\<close>
  "empty_db = \<lparr>attendance = [], attendance_seq = 0, users = [], settings = Map.empty\<rparr>"

definition default_settings :: "(string \<times> string) list" where
  "default_settings =
     [(''bot_name'', default_bot_name),
      (''welcome_message'', default_welcome_message),
      (''morning_time'', ''09:00''),
      (''noon_time'', ''13:00''),
      (''evening_time'', ''18:00''),
      (''report_time'', ''20:00''),
      (''week_report_time'', ''18:00''),
      (''month_report_time'', ''18:00''),
      (''task_tags'', default_task_tags_json),
      (''status_options'', default_status_options_json),
      (''schedule_enabled'', ''true''),
      (''company_location'', []),
      (''company_lat'', []),
      (''company_lng'', []),
      (''checkin_radius'', ''500'')]"

definition insert_or_ignore_setting ::
  "clock \<Rightarrow> (string \<rightharpoonup> setting_row) \<Rightarrow> string \<times> string \<Rightarrow> (string \<rightharpoonup> setting_row)" where
  \<comment> \<open>\<^verbatim>\<open>INSERT OR IGNORE INTO settings (key, value) VALUES (?, ?)\<close>\<close>
  "insert_or_ignore_setting clk m kv =
     (case m (fst kv) of
        Some _ \<Rightarrow> m
      | None \<Rightarrow> m(fst kv \<mapsto> \<lparr>setting_value = snd kv, updated_at = Some (current_timestamp clk)\<rparr>))"

definition init_db :: "clock \<Rightarrow> db \<Rightarrow> db" where
  "init_db clk d = d\<lparr>settings := foldl (insert_or_ignore_setting clk) (settings d) default_settings\<rparr>"

definition get_setting :: "db \<Rightarrow> string \<Rightarrow> string \<Rightarrow> string" where
  \<comment> \<open>\<^verbatim>\<open>row['value'] if row else default\<close>\<close>
  "get_setting d key dflt = (case settings d key of Some row \<Rightarrow> setting_value row | None \<Rightarrow> dflt)"

definition set_setting :: "clock \<Rightarrow> db \<Rightarrow> string \<Rightarrow> string \<Rightarrow> db" where
  \<comment> \<open>\<^verbatim>\<open>INSERT OR REPLACE INTO settings (key, value, updated_at) VALUES (?, ?, ?)\<close>\<close>
  "set_setting clk d key v =
     d\<lparr>settings := (settings d)(key \<mapsto> \<lparr>setting_value = v, updated_at = Some (now_stamp clk)\<rparr>)\<rparr>"

definition get_all_settings :: "pylib \<Rightarrow> db \<Rightarrow> (string \<rightharpoonup> json)" where
  \<comment> \<open>each value decoded by \<^verbatim>\<open>json.loads\<close>, or kept as the raw string when that raises\<close>
  "get_all_settings lib d = (\<lambda>key.
     case settings d key of
       None \<Rightarrow> None
     | Some row \<Rightarrow> Some (case json_loads lib (setting_value row) of
                          Some v \<Rightarrow> v
                        | None \<Rightarrow> JStr (setting_value row)))"

subsection \<open>The user directory\<close>

definition insert_or_replace_user :: "db \<Rightarrow> pystr \<Rightarrow> pystr \<Rightarrow> exn + db" where
  \<comment> \<open>\<^verbatim>\<open>INSERT OR REPLACE INTO users (user_id, user_name, is_active) VALUES (?, ?, 1)\<close> and
      the commit: the row with this primary key, if any, is deleted and the new row is
      added; a parameter without an encoding raises and nothing is written\<close>
  "insert_or_replace_user d uid uname =
     (case uid of
        Unencodable \<Rightarrow> Inl UnicodeEncodeError
      | Str i \<Rightarrow>
          (case uname of
             Unencodable \<Rightarrow> Inl UnicodeEncodeError
           | Str n \<Rightarrow>
               Inr (d\<lparr>users := filter (\<lambda>u. u_user_id u \<noteq> i) (users d)
                                   @ [\<lparr>u_user_id = i, u_user_name = n, is_active = 1\<rparr>]\<rparr>)))"

definition register_user :: "db \<Rightarrow> pystr \<Rightarrow> pystr \<Rightarrow> bool \<times> db" where
  \<comment> \<open>\<^verbatim>\<open>try: ... return True / except: return False\<close>\<close>
  "register_user d uid uname =
     (case insert_or_replace_user d uid uname of
        Inr d1 \<Rightarrow> (True, d1)
      | Inl e \<Rightarrow> (False, d))"

definition get_all_users :: "db \<Rightarrow> (string \<times> string) list" where
  \<comment> \<open>\<^verbatim>\<open>SELECT user_id, user_name FROM users WHERE is_active = 1\<close>, as (id, name) pairs\<close>
  "get_all_users d = map (\<lambda>u. (u_user_id u, u_user_name u)) (filter (\<lambda>u. is_active u = 1) (users d))"

subsection \<open>The attendance ledger\<close>

definition for_user_date :: "string \<Rightarrow> string \<Rightarrow> attendance_row \<Rightarrow> bool" where
  \<comment> \<open>\<^verbatim>\<open>WHERE user_id = ? AND date = ?\<close>\<close>
  "for_user_date uid day r = (user_id r = uid \<and> date r = day)"

definition insert_attendance ::
  "clock \<Rightarrow> db \<Rightarrow> string \<Rightarrow> string \<Rightarrow> string \<Rightarrow> string \<Rightarrow> string \<Rightarrow> string \<Rightarrow> string \<Rightarrow> string
     \<Rightarrow> exn + db" where
  \<comment> \<open>the \<^verbatim>\<open>INSERT INTO attendance\<close> of \<^verbatim>\<open>check_in\<close>, under \<^verbatim>\<open>UNIQUE(user_id, date)\<close>;
      the columns it does not name take their defaults\<close>
  "insert_attendance clk d uid uname day tm status tk loc tj =
     (if find (for_user_date uid day) (attendance d) \<noteq> None then Inl IntegrityError
      else Inr (d\<lparr>attendance := attendance d @
                    [\<lparr>row_id = Suc (attendance_seq d), user_id = uid, user_name = uname,
                      date = day, check_in_time = Some tm, check_out_time = None,
                      morning_status = Some status, evening_status = None,
                      location = Some loc, task = Some tk, tasks_json = Some tj,
                      completion = Some 0, progress_status = None, work_summary = None,
                      created_at = Some (current_timestamp clk)\<rparr>],
                  attendance_seq := Suc (attendance_seq d)\<rparr>))"

definition check_in ::
  "clock \<Rightarrow> db \<Rightarrow> string \<Rightarrow> string \<Rightarrow> string \<Rightarrow> string \<Rightarrow> string \<Rightarrow> string \<Rightarrow> (bool \<times> string) \<times> db" where
  "check_in clk d uid uname status tk loc tj =
     (let day = get_today_date clk; current_time = get_current_time clk in
      if find (for_user_date uid day) (attendance d) \<noteq> None
      then ((False, msg_already_checked_in), d)
      else (case insert_attendance clk d uid uname day current_time status tk loc tj of
              Inl e \<Rightarrow> ((False, msg_check_in_failed), d)
            | Inr d1 \<Rightarrow>
                ((True, msg_check_in_ok_status @ status @ msg_check_in_ok_task @ tk),
                 snd (register_user d1 (Str uid) (Str uname)))))"

definition update_check_out ::
  "db \<Rightarrow> string \<Rightarrow> int \<Rightarrow> string \<Rightarrow> string \<Rightarrow> string \<Rightarrow> exn + nat \<times> db" where
  \<comment> \<open>the \<^verbatim>\<open>UPDATE\<close> of \<^verbatim>\<open>check_out\<close> and the commit, giving the row count; a completion
      outside 64 bits cannot be bound: the statement raises and nothing is written\<close>
  "update_check_out d current_time compl summary uid day =
     (if \<not> sqlite_int compl then Inl OverflowError
      else Inr (length (filter (for_user_date uid day) (attendance d)),
                d\<lparr>attendance := map (\<lambda>r. if for_user_date uid day r
                                             then r\<lparr>check_out_time := Some current_time,
                                                    completion := Some compl,
                                                    evening_status := Some evening_done,
                                                    work_summary := Some summary\<rparr>
                                             else r) (attendance d)\<rparr>))"

definition check_out :: "clock \<Rightarrow> db \<Rightarrow> string \<Rightarrow> int \<Rightarrow> string \<Rightarrow> (bool \<times> string) \<times> db" where
  "check_out clk d uid compl summary =
     (let day = get_today_date clk; current_time = get_current_time clk in
      case update_check_out d current_time compl summary uid day of
        Inl e \<Rightarrow> ((False, msg_check_out_failed), d)
      | Inr res \<Rightarrow>
          if fst res = 0 then ((False, msg_not_checked_in), snd res)
          else ((True, msg_check_out_ok @ str_int compl @ ''%''), snd res))"

definition update_progress :: "clock \<Rightarrow> db \<Rightarrow> string \<Rightarrow> string \<Rightarrow> bool \<times> db" where
  "update_progress clk d uid progress =
     (let day = get_today_date clk in
      (True, d\<lparr>attendance := map (\<lambda>r. if for_user_date uid day r
                                        then r\<lparr>progress_status := Some progress\<rparr>
                                        else r) (attendance d)\<rparr>))"

record user_status =
  us_name :: string
  us_check_in :: "string option"
  us_check_out :: "string option"
  us_status :: "string option"
  us_task :: "string option"
  us_completion :: "int option"
  us_progress_status :: "string option"

definition get_user_status :: "clock \<Rightarrow> db \<Rightarrow> string \<Rightarrow> user_status option" where
  \<comment> \<open>\<^verbatim>\<open>fetchone()\<close> of the rows of this user and day, as the dictionary of seven keys\<close>
  "get_user_status clk d uid =
     (case find (for_user_date uid (get_today_date clk)) (attendance d) of
        None \<Rightarrow> None
      | Some r \<Rightarrow> Some \<lparr>us_name = user_name r, us_check_in = check_in_time r,
                       us_check_out = check_out_time r, us_status = morning_status r,
                       us_task = task r, us_completion = completion r,
                       us_progress_status = progress_status r\<rparr>)"

subsection \<open>Today's statuses and the daily report\<close>

record status =
  s_name :: string
  s_check_in :: "string option"
  s_check_out :: "string option"
  s_morning_status :: "string option"
  s_evening_status :: "string option"
  s_task :: "string option"
  s_location :: "string option"
  s_completion :: "int option"
  s_progress_status :: "string option"
  s_work_summary :: "string option"
  s_tasks :: json

definition decode_tasks :: "pylib \<Rightarrow> string option \<Rightarrow> exn + json" where
  \<comment> \<open>\<^verbatim>\<open>json.loads(row[10]) if row[10] else []\<close>\<close>
  "decode_tasks lib tj =
     (case tj of
        None \<Rightarrow> Inr (JList [])
      | Some s \<Rightarrow> if s = [] then Inr (JList [])
                  else (case json_loads lib s of
                          None \<Rightarrow> Inl JSONDecodeError
                        | Some v \<Rightarrow> Inr v))"

definition row_status :: "attendance_row \<Rightarrow> json \<Rightarrow> status" where
  "row_status r v =
     \<lparr>s_name = user_name r, s_check_in = check_in_time r, s_check_out = check_out_time r,
      s_morning_status = morning_status r, s_evening_status = evening_status r,
      s_task = task r, s_location = location r, s_completion = completion r,
      s_progress_status = progress_status r, s_work_summary = work_summary r,
      s_tasks = v\<rparr>"

fun results :: "pylib \<Rightarrow> attendance_row list \<Rightarrow> exn + status list" where
  "results lib [] = Inr []"
| "results lib (r # rs) =
     (case decode_tasks lib (tasks_json r) of
        Inl e \<Rightarrow> Inl e
      | Inr v \<Rightarrow> (case results lib rs of
                    Inl e \<Rightarrow> Inl e
                  | Inr ss \<Rightarrow> Inr (row_status r v # ss)))"

definition get_today_status :: "pylib \<Rightarrow> clock \<Rightarrow> db \<Rightarrow> exn + status list" where
  \<comment> \<open>\<^verbatim>\<open>WHERE date = ? ORDER BY check_in_time\<close>: \<^verbatim>\<open>NULL\<close> first, then by bytes; rows with
      equal keys stay in rowid order\<close>
  "get_today_status lib clk d =
     results lib (sort_key check_in_time
                    (filter (\<lambda>r. date r = get_today_date clk) (attendance d)))"

definition status_icon :: "string option \<Rightarrow> string" where
  \<comment> \<open>the lookup in the dictionary of four icons, with the pin as default\<close>
  "status_icon ms =
     (if ms = Some status_office then icon_office
      else if ms = Some status_outdoor then icon_outdoor
      else if ms = Some status_home then icon_home
      else if ms = Some status_meeting then icon_meeting
      else icon_pin)"

definition status_entry :: "status \<Rightarrow> string" where
  \<comment> \<open>what one pass of the loop over \<^verbatim>\<open>statuses\<close> appends to \<^verbatim>\<open>content\<close>\<close>
  "status_entry s =
     (let icon = status_icon (s_morning_status s);
          task_text = (case s_task s of
                         None \<Rightarrow> task_not_filled
                       | Some t \<Rightarrow> if t = [] then task_not_filled else t);
          progress_icon = (if s_progress_status s = Some progress_all_normal
                           then icon_green else icon_red)
      in bullet @ s_name s @ '' '' @ icon @ '' '' @ fmt_str (s_morning_status s) @ [CHR 0x0A]
         @ task_line_pre @ task_text @ [CHR 0x0A]
         @ ''  '' @ progress_icon @ progress_label @ fmt_str (s_progress_status s) @ [CHR 0x0A]
         @ (if truthy (s_check_out s)
            then checked_out_pre @ fmt_int (s_completion s) @ ''%)'' @ [CHR 0x0A] else [])
         @ [CHR 0x0A])"

definition build_daily_report :: "pylib \<Rightarrow> clock \<Rightarrow> db \<Rightarrow> exn + string" where
  "build_daily_report lib clk d =
     (case get_today_status lib clk d of
        Inl e \<Rightarrow> Inl e
      | Inr statuses \<Rightarrow>
          (let all_users = get_all_users d;
               day = get_today_date clk;
               checked_in_names = map s_name statuses;
               not_checked_in = map snd (filter (\<lambda>u. snd u \<notin> set checked_in_names) all_users);
               content0 = report_head_pre @ day @ [CHR 0x0A, CHR 0x0A];
               content1 = (if statuses \<noteq> []
                           then foldl (\<lambda>c s. c @ status_entry s) content0 statuses
                           else content0);
               content2 = (if not_checked_in \<noteq> []
                           then foldl (\<lambda>c n. c @ bullet @ n @ [CHR 0x0A])
                                  (content1 @ not_checked_in_title) not_checked_in
                           else content1)
           in Inr content2))"

text \<open>
  The report as the specification words it, to compare with \<open>build_daily_report\<close>: one
  entry per record of today (\<open>entry_text\<close>), then the roster of the users who have not
  checked in, under its title when it is not empty.
\<close>

definition entry_text :: "attendance_row \<Rightarrow> string" where
  "entry_text r =
     bullet @ user_name r @ '' '' @ status_icon (morning_status r) @ '' ''
       @ fmt_str (morning_status r) @ [CHR 0x0A]
     @ task_line_pre @ (if truthy (task r) then fmt_str (task r) else task_not_filled) @ [CHR 0x0A]
     @ ''  '' @ (if progress_status r = Some progress_all_normal then icon_green else icon_red)
       @ progress_label @ fmt_str (progress_status r) @ [CHR 0x0A]
     @ (if truthy (check_out_time r)
        then checked_out_pre @ fmt_int (completion r) @ ''%)'' @ [CHR 0x0A] else [])
     @ [CHR 0x0A]"

definition report_text :: "string \<Rightarrow> attendance_row list \<Rightarrow> user_row list \<Rightarrow> string" where
  "report_text day present absent =
     report_head_pre @ day @ [CHR 0x0A, CHR 0x0A]
     @ concat (map entry_text present)
     @ (if absent = [] then []
        else not_checked_in_title
             @ concat (map (\<lambda>u. bullet @ u_user_name u @ [CHR 0x0A]) absent))"

definition todays_rows :: "clock \<Rightarrow> db \<Rightarrow> attendance_row list" where
  \<comment> \<open>today's ledger\<close>
  "todays_rows clk d = filter (\<lambda>r. date r = get_today_date clk) (attendance d)"

definition absent_users :: "clock \<Rightarrow> db \<Rightarrow> user_row list" where
  \<comment> \<open>the active users whose display name is on no record of today\<close>
  "absent_users clk d =
     filter (\<lambda>u. is_active u = 1 \<and> u_user_name u \<notin> set (map user_name (todays_rows clk d)))
       (users d)"

definition occurrences :: "('a \<Rightarrow> bool) \<Rightarrow> 'a list \<Rightarrow> nat" where
  "occurrences P xs = length (filter P xs)"

subsection \<open>Outbound messages\<close>

text \<open>
  The dictionaries the source posts to the chat platform, as data. The card keeps its
  structure (the source serialises it with \<^verbatim>\<open>json.dumps\<close> when it sends it). An outbound
  send is the pair of the URL and the message; the answer of the platform is ignored by
  every caller, so a handler returns the list of the posts it makes.
\<close>

datatype button =
  Button (btn_text: string) (btn_type: "string option") (btn_value: "(string \<times> json) list")

datatype element = Div string | Action "button list"

record card =
  card_title :: string
  card_template :: string
  card_elements :: "element list"

datatype message =
  TextMessage string
| PostMessage string string
| InteractiveMessage card

type_synonym outbox = "(string \<times> message) list"

definition send_feishu_message :: "string \<Rightarrow> message \<Rightarrow> outbox" where
  "send_feishu_message webhook_url m = [(webhook_url, m)]"

definition send_text_message :: "string \<Rightarrow> string \<Rightarrow> outbox" where
  \<comment> \<open>\<open>hook\<close> is \<^verbatim>\<open>FEISHU_WEBHOOK_URL\<close>; nothing is sent when it is empty\<close>
  "send_text_message hook text =
     (if hook = [] then [] else send_feishu_message hook (TextMessage text))"

definition send_rich_text_message :: "string \<Rightarrow> string \<Rightarrow> string \<Rightarrow> outbox" where
  "send_rich_text_message hook title content =
     (if hook = [] then [] else send_feishu_message hook (PostMessage title content))"

subsection \<open>The message handler\<close>

text \<open>
  \<^verbatim>\<open>str.strip()\<close>: the white space of Python, as UTF-8. One byte: U+0009 to U+000D,
  U+001C to U+0020. Two bytes: U+0085, U+00A0. Three bytes: U+1680, U+2000 to U+200A,
  U+2028, U+2029, U+202F, U+205F, U+3000.
\<close>

definition is_space1 :: "char \<Rightarrow> bool" where
  "is_space1 a = (let n = (of_char a :: nat) in (9 \<le> n \<and> n \<le> 13) \<or> (28 \<le> n \<and> n \<le> 32))"

definition is_space2 :: "char \<Rightarrow> char \<Rightarrow> bool" where
  "is_space2 a b = (a = CHR 0xC2 \<and> (b = CHR 0x85 \<or> b = CHR 0xA0))"

definition is_space3 :: "char \<Rightarrow> char \<Rightarrow> char \<Rightarrow> bool" where
  "is_space3 a b c =
     ((a = CHR 0xE1 \<and> b = CHR 0x9A \<and> c = CHR 0x80)
      \<or> (a = CHR 0xE2 \<and> b = CHR 0x80
          \<and> ((128 \<le> (of_char c :: nat) \<and> (of_char c :: nat) \<le> 138)
              \<or> c = CHR 0xA8 \<or> c = CHR 0xA9 \<or> c = CHR 0xAF))
      \<or> (a = CHR 0xE2 \<and> b = CHR 0x81 \<and> c = CHR 0x9F)
      \<or> (a = CHR 0xE3 \<and> b = CHR 0x80 \<and> c = CHR 0x80))"

fun lstrip :: "string \<Rightarrow> string" where
  "lstrip (a # b # c # s) =
     (if is_space1 a then lstrip (b # c # s)
      else if is_space2 a b then lstrip (c # s)
      else if is_space3 a b c then lstrip s
      else a # b # c # s)"
| "lstrip [a, b] =
     (if is_space1 a then lstrip [b]
      else if is_space2 a b then []
      else [a, b])"
| "lstrip [a] = (if is_space1 a then [] else [a])"
| "lstrip [] = []"

fun rstrip_rev :: "string \<Rightarrow> string" where
  \<comment> \<open>on the reversed string: the last byte comes first\<close>
  "rstrip_rev (c # b # a # s) =
     (if is_space1 c then rstrip_rev (b # a # s)
      else if is_space2 b c then rstrip_rev (a # s)
      else if is_space3 a b c then rstrip_rev s
      else c # b # a # s)"
| "rstrip_rev [c, b] =
     (if is_space1 c then rstrip_rev [b]
      else if is_space2 b c then []
      else [c, b])"
| "rstrip_rev [c] = (if is_space1 c then [] else [c])"
| "rstrip_rev [] = []"

definition strip :: "string \<Rightarrow> string" where
  "strip s = rev (rstrip_rev (rev (lstrip s)))"

record webhook_event =
  msg_type :: "string option"
  sender_user_id :: "pystr option"
  sender_name :: "pystr option"
  text_content :: "string option"

text \<open>
  The JSON body of a request, with the keys the handler reads; \<open>None\<close> is a key that is
  missing, and the handler then takes its default. The identifier and the name of the
  sender are any \<^verbatim>\<open>str\<close>: the handler passes them to \<open>register_user\<close> as they come.
\<close>

datatype response = Response int string

definition resp_ok :: response where
  "resp_ok = Response 0 ''ok''"

definition resp_internal_error :: response where
  "resp_internal_error = Response 500 ''internal error''"

definition sliceable :: "json \<Rightarrow> bool" where
  \<comment> \<open>whether \<^verbatim>\<open>v[:6]\<close> can be taken and iterated: a list or a string; anything else
      raises\<close>
  "sliceable v = (case v of JList _ \<Rightarrow> True | JStr _ \<Rightarrow> True | _ \<Rightarrow> False)"

definition checkin_button :: "string \<Rightarrow> string \<Rightarrow> button" where
  "checkin_button icon st =
     Button (icon @ '' '' @ st) (Some ''primary'')
       [(''action'', JStr ''checkin''), (''status'', JStr st)]"

definition checkin_card :: "pylib \<Rightarrow> (string \<rightharpoonup> json) \<Rightarrow> card" where
  "checkin_card lib setts =
     \<lparr>card_title = card_checkin_title, card_template = ''blue'',
      card_elements =
        [Div (card_location_pre
              @ py_str lib (case setts ''company_location'' of
                              None \<Rightarrow> JStr location_not_set | Some v \<Rightarrow> v)
              @ card_choose_status),
         Action [checkin_button icon_office status_office,
                 checkin_button icon_outdoor status_outdoor],
         Action [checkin_button icon_home status_home,
                 checkin_button icon_meeting status_meeting]]\<rparr>"

definition checkout_button :: "string \<Rightarrow> string option \<Rightarrow> int \<Rightarrow> button" where
  "checkout_button label ty pct =
     Button label ty [(''action'', JStr ''checkout''), (''completion'', JInt pct)]"

definition checkout_card :: card where
  "checkout_card =
     \<lparr>card_title = card_checkout_title, card_template = ''green'',
      card_elements =
        [Div card_choose_completion,
         Action [checkout_button (''25% '' @ icon_red) None 25,
                 checkout_button (''50% '' @ icon_yellow) None 50],
         Action [checkout_button (''75% '' @ icon_green) None 75,
                 checkout_button (''100% '' @ icon_star) (Some ''primary'') 100]]\<rparr>"

definition feishu_webhook ::
  "pylib \<Rightarrow> string \<Rightarrow> clock \<Rightarrow> db \<Rightarrow> webhook_event option \<Rightarrow> (response \<times> outbox) \<times> db" where
  "feishu_webhook lib hook clk d data =
     (case data of
        None \<Rightarrow> ((resp_ok, []), d)
      | Some ev \<Rightarrow>
          if msg_type ev \<noteq> Some ''text'' then ((resp_ok, []), d)
          else
            (let uid = (case sender_user_id ev of None \<Rightarrow> Str [] | Some u \<Rightarrow> u);
                 uname = (case sender_name ev of None \<Rightarrow> Str unknown_user | Some n \<Rightarrow> n);
                 text = strip (case text_content ev of None \<Rightarrow> [] | Some t \<Rightarrow> t);
                 d1 = snd (register_user d uid uname);
                 setts = get_all_settings lib d1;
                 task_tags = (case setts ''task_tags'' of
                                None \<Rightarrow> JList [JStr tag_video_editing, JStr tag_copywriting,
                                                JStr tag_filming]
                              | Some v \<Rightarrow> v)
             in if text \<in> set [kw_checkin, ''/checkin'', ''/'' @ kw_checkin] then
                  (if sliceable task_tags
                   then ((resp_ok,
                          send_feishu_message hook (InteractiveMessage (checkin_card lib setts))),
                         d1)
                   else ((resp_internal_error, []), d1))
                else if text \<in> set [kw_checkout, ''/checkout'', ''/'' @ kw_checkout] then
                  ((resp_ok, send_feishu_message hook (InteractiveMessage checkout_card)), d1)
                else if text \<in> set [kw_report, ''/report'', ''/'' @ kw_report] then
                  (case build_daily_report lib clk d1 of
                     Inl e \<Rightarrow> ((resp_internal_error, []), d1)
                   | Inr content \<Rightarrow>
                       ((resp_ok, send_rich_text_message hook report_title content), d1))
                else if text \<in> set [kw_help, ''/help''] then
                  ((resp_ok,
                    send_text_message hook
                      (help_pre
                       @ py_str lib (case setts ''bot_name'' of
                                       None \<Rightarrow> JStr default_bot_name | Some v \<Rightarrow> v)
                       @ help_post)),
                   d1)
                else ((resp_ok, send_text_message hook (echo_pre @ text @ echo_post)), d1)))"

subsection \<open>The callback handler\<close>

record callback_event =
  cb_type :: "string option"
  cb_action :: "string option"
  cb_status :: "string option"
  cb_completion :: "int option"
  operator_user_id :: "string option"
  operator_name :: "string option"

definition feishu_callback ::
  "string \<Rightarrow> clock \<Rightarrow> db \<Rightarrow> callback_event option \<Rightarrow> (response \<times> outbox) \<times> db" where
  \<comment> \<open>a body that is JSON \<^verbatim>\<open>null\<close> has no \<^verbatim>\<open>get\<close>: the handler answers 500\<close>
  "feishu_callback hook clk d data =
     (case data of
        None \<Rightarrow> ((resp_internal_error, []), d)
      | Some ev \<Rightarrow>
          if cb_type ev \<noteq> Some ''interactive'' then ((resp_ok, []), d)
          else
            (let uid = (case operator_user_id ev of None \<Rightarrow> [] | Some u \<Rightarrow> u);
                 uname = (case operator_name ev of None \<Rightarrow> unknown_user | Some n \<Rightarrow> n)
             in if cb_action ev = Some ''checkin'' then
                  (let st = (case cb_status ev of None \<Rightarrow> status_office | Some s \<Rightarrow> s);
                       res = check_in clk d uid uname st daily_work st ''[]''
                   in ((resp_ok, send_text_message hook (''@'' @ uname @ '' '' @ snd (fst res))),
                       snd res))
                else if cb_action ev = Some ''checkout'' then
                  (let compl = (case cb_completion ev of None \<Rightarrow> 0 | Some c \<Rightarrow> c);
                       res = check_out clk d uid compl []
                   in ((resp_ok, send_text_message hook (''@'' @ uname @ '' '' @ snd (fst res))),
                       snd res))
                else ((resp_ok, []), d)))"

subsection \<open>Runs of the system\<close>

text \<open>
  The operations that write to the database, and the state after a sequence of them
  starting from the empty tables.
\<close>

datatype op =
  InitDb clock
| RegisterUser pystr pystr
| CheckIn clock string string string string string string
| CheckOut clock string int string
| UpdateProgress clock string string
| SetSetting clock string string

fun step :: "db \<Rightarrow> op \<Rightarrow> db" where
  "step d (InitDb clk) = init_db clk d"
| "step d (RegisterUser uid uname) = snd (register_user d uid uname)"
| "step d (CheckIn clk uid uname st tk loc tj) = snd (check_in clk d uid uname st tk loc tj)"
| "step d (CheckOut clk uid compl summary) = snd (check_out clk d uid compl summary)"
| "step d (UpdateProgress clk uid progress) = snd (update_progress clk d uid progress)"
| "step d (SetSetting clk key v) = set_setting clk d key v"

definition run :: "op list \<Rightarrow> db" where
  "run ops = foldl step empty_db ops"

subsection \<open>The constraints of the schema\<close>

definition row_key :: "attendance_row \<Rightarrow> string \<times> string" where
  \<comment> \<open>the columns of \<^verbatim>\<open>UNIQUE(user_id, date)\<close>\<close>
  "row_key r = (user_id r, date r)"

definition unique_user_date :: "db \<Rightarrow> bool" where
  "unique_user_date d = distinct (map row_key (attendance d))"

definition unique_user_id :: "db \<Rightarrow> bool" where
  \<comment> \<open>\<^verbatim>\<open>user_id TEXT PRIMARY KEY\<close> of the users table\<close>
  "unique_user_id d = distinct (map u_user_id (users d))"

subsection \<open>Reading a card\<close>

definition card_buttons :: "card \<Rightarrow> button list" where
  \<comment> \<open>the buttons of the action rows of a card, in order\<close>
  "card_buttons c = concat (map (\<lambda>e. case e of Action bs \<Rightarrow> bs | Div _ \<Rightarrow> []) (card_elements c))"

definition checkin_payload :: "string \<Rightarrow> (string \<times> json) list" where
  \<comment> \<open>the payload \<^verbatim>\<open>{"action": "checkin", "status": st}\<close>\<close>
  "checkin_payload st = [(''action'', JStr ''checkin''), (''status'', JStr st)]"

subsection \<open>Records whose task list can be read\<close>

definition tasks_decodable :: "pylib \<Rightarrow> attendance_row \<Rightarrow> bool" where
  \<comment> \<open>the \<^verbatim>\<open>tasks_json\<close> of the row is \<^verbatim>\<open>NULL\<close>, empty, or text that \<^verbatim>\<open>json.loads\<close> accepts\<close>
  "tasks_decodable lib r = (case decode_tasks lib (tasks_json r) of Inl _ \<Rightarrow> False | Inr _ \<Rightarrow> True)"

subsection \<open>Concrete states\<close>

text \<open>The inputs at which the theorems below are instantiated.\<close>

definition clk_morning :: clock where
  "clk_morning = \<lparr>today = ''2024-05-06'', now_time = ''09:01:02'',
                   now_stamp = ''2024-05-06 09:01:02'',
                   current_timestamp = ''2024-05-06 01:01:02''\<rparr>"

definition clk_evening :: clock where
  "clk_evening = \<lparr>today = ''2024-05-06'', now_time = ''18:30:00'',
                   now_stamp = ''2024-05-06 18:30:00'',
                   current_timestamp = ''2024-05-06 10:30:00''\<rparr>"

definition db_alice :: db where
  \<comment> \<open>alice has checked in this morning\<close>
  "db_alice = run [CheckIn clk_morning ''u1'' ''alice'' ''Office'' ''Edit video'' ''Office'' ''[]'']"




definition sample_loads :: "string \<Rightarrow> json option" where
  \<comment> \<open>\<^verbatim>\<open>json.loads\<close> on the three strings the concrete states use: \<^verbatim>\<open>[]\<close> and
      \<^verbatim>\<open>["Remote"]\<close> decode to lists, \<^verbatim>\<open>{bad\<close> raises; no other string is passed to it\<close>
  "sample_loads s =
     (if s = ''[]'' then Some (JList [])
      else if s = ''['' @ [CHR 0x22] @ ''Remote'' @ [CHR 0x22] @ '']''
      then Some (JList [JStr ''Remote''])
      else None)"

definition sample_lib :: pylib where
  \<comment> \<open>\<^verbatim>\<open>repr\<close> is applied to no list or dictionary other than the empty list\<close>
  "sample_lib = \<lparr>json_loads = sample_loads, py_repr = (\<lambda>v. ''[]'')\<rparr>"

definition hook_url :: string where
  "hook_url = ''https://open.feishu.cn/open-apis/bot/v2/hook/team''"

definition ev_checkout_plain :: callback_event where
  \<comment> \<open>alice presses a check-out button whose payload has no completion\<close>
  "ev_checkout_plain =
     \<lparr>cb_type = Some ''interactive'', cb_action = Some ''checkout'', cb_status = None,
      cb_completion = None, operator_user_id = Some ''u1'', operator_name = Some ''alice''\<rparr>"

definition ev_checkin_home :: callback_event where
  \<comment> \<open>alice presses the check-in button of the status ``Home''\<close>
  "ev_checkin_home =
     \<lparr>cb_type = Some ''interactive'', cb_action = Some ''checkin'', cb_status = Some ''Home'',
      cb_completion = None, operator_user_id = Some ''u1'', operator_name = Some ''alice''\<rparr>"

definition db_alice_inactive :: db where
  \<comment> \<open>alice has checked in this morning and has then been deactivated\<close>
  "db_alice_inactive =
     db_alice\<lparr>users := [\<lparr>u_user_id = ''u1'', u_user_name = ''alice'', is_active = 0\<rparr>]\<rparr>"

definition db_inactive :: db where
  \<comment> \<open>alice is registered and deactivated, and has no record\<close>
  "db_inactive =
     empty_db\<lparr>users := [\<lparr>u_user_id = ''u1'', u_user_name = ''alice'', is_active = 0\<rparr>]\<rparr>"

definition ev_text_hello :: webhook_event where
  "ev_text_hello =
     \<lparr>msg_type = Some ''text'', sender_user_id = Some (Str ''u1''),
      sender_name = Some (Str ''alice''), text_content = Some ''hello''\<rparr>"

definition ev_text_checkin :: webhook_event where
  "ev_text_checkin =
     \<lparr>msg_type = Some ''text'', sender_user_id = Some (Str ''u1''),
      sender_name = Some (Str ''alice''), text_content = Some '' /checkin ''\<rparr>"

definition db_remote :: db where
  \<comment> \<open>the status vocabulary is configured as the single option ``Remote''\<close>
  "db_remote = run [SetSetting clk_morning ''status_options''
                      (''['' @ [CHR 0x22] @ ''Remote'' @ [CHR 0x22] @ '']'')]"

definition db_team :: db where
  \<comment> \<open>alice and bob are checked in (bob first), carol and dave are only registered, and
      dave has been deactivated\<close>
  "db_team =
     (run [CheckIn clk_morning ''u1'' ''alice'' ''Office'' ''Edit video'' ''Office'' ''[]'',
           CheckIn (clk_morning\<lparr>now_time := ''08:45:00''\<rparr>) ''u2'' ''bob'' ''Home'' [] ''Home'' [],
           RegisterUser (Str ''u3'') (Str ''carol'')])
       \<lparr>users := users (run [CheckIn clk_morning ''u1'' ''alice'' ''Office'' ''Edit video''
                                ''Office'' ''[]'',
                              CheckIn (clk_morning\<lparr>now_time := ''08:45:00''\<rparr>) ''u2'' ''bob''
                                ''Home'' [] ''Home'' [],
                              RegisterUser (Str ''u3'') (Str ''carol'')])
                  @ [\<lparr>u_user_id = ''u4'', u_user_name = ''dave'', is_active = 0\<rparr>]\<rparr>"

definition db_bad_tasks :: db where
  \<comment> \<open>alice has checked in with a task list that is not JSON\<close>
  "db_bad_tasks =
     run [CheckIn clk_morning ''u1'' ''alice'' ''Office'' ''Edit video'' ''Office'' ''{bad'']"

definition ev_text_bad_name :: webhook_event where
  \<comment> \<open>a text message whose sender name has no UTF-8 encoding\<close>
  "ev_text_bad_name =
     \<lparr>msg_type = Some ''text'', sender_user_id = Some (Str ''u1''),
      sender_name = Some Unencodable, text_content = Some ''hello''\<rparr>"

section \<open>Properties\<close>

subsection \<open>Rows of one user and day\<close>

lemma for_user_date_key: "for_user_date uid day r \<longleftrightarrow> row_key r = (uid, day)"
  by (auto simp: for_user_date_def row_key_def)

lemma find_for_user_date_None:
  "find (for_user_date uid day) rows = None \<longleftrightarrow> (uid, day) \<notin> set (map row_key rows)"
  by (force simp: find_None_iff for_user_date_key image_iff)

lemma filter_for_user_date_empty:
  "find (for_user_date uid day) rows = None \<Longrightarrow> filter (for_user_date uid day) rows = []"
  by (auto simp: find_None_iff filter_empty_conv)

lemma distinct_keys_at_most_one:
  "distinct (map row_key rows) \<Longrightarrow> length (filter (for_user_date uid day) rows) \<le> 1"
proof (induction rows)
  case Nil
  then show ?case by simp
next
  case (Cons r rows)
  show ?case
  proof (cases "for_user_date uid day r")
    case True
    then have "(uid, day) \<notin> set (map row_key rows)"
      using Cons.prems by (simp add: for_user_date_key)
    then have "filter (for_user_date uid day) rows = []"
      by (simp add: filter_for_user_date_empty find_for_user_date_None)
    with True show ?thesis by simp
  next
    case False
    with Cons show ?thesis by simp
  qed
qed

lemma map_key_update:
  assumes "\<And>r. row_key (f r) = row_key r"
  shows "map row_key (map (\<lambda>r. if P r then f r else r) rows) = map row_key rows"
  using assms by (induction rows) auto

lemma check_out_keys:
  "map row_key (attendance (snd (check_out clk d uid c w))) = map row_key (attendance d)"
  unfolding check_out_def update_check_out_def Let_def
  by (simp add: map_key_update row_key_def split: if_splits)

lemma update_progress_keys:
  "map row_key (attendance (snd (update_progress clk d uid p))) = map row_key (attendance d)"
  unfolding update_progress_def Let_def
  by (simp add: map_key_update row_key_def)

lemma register_user_attendance:
  "attendance (snd (register_user d uid nm)) = attendance d"
  by (simp add: register_user_def insert_or_replace_user_def split: pystr.splits)

lemma set_setting_attendance: "attendance (set_setting clk d k v) = attendance d"
  by (simp add: set_setting_def)

lemma init_db_attendance: "attendance (init_db clk d) = attendance d"
  by (simp add: init_db_def)

lemma check_in_keys:
  "map row_key (attendance (snd (check_in clk d uid nm st tk loc tj))) =
     (if (uid, get_today_date clk) \<in> set (map row_key (attendance d))
      then map row_key (attendance d)
      else map row_key (attendance d) @ [(uid, get_today_date clk)])"
  unfolding check_in_def insert_attendance_def Let_def
  by (auto simp: find_for_user_date_None row_key_def register_user_attendance)

lemma step_distinct:
  "distinct (map row_key (attendance d)) \<Longrightarrow> distinct (map row_key (attendance (step d x)))"
  by (cases x)
     (simp_all add: check_out_keys update_progress_keys check_in_keys register_user_attendance
        set_setting_attendance init_db_attendance)

lemma foldl_step_distinct:
  "distinct (map row_key (attendance d)) \<Longrightarrow>
     distinct (map row_key (attendance (foldl step d ops)))"
  by (induction ops arbitrary: d) (simp_all add: step_distinct)

lemma run_distinct: "distinct (map row_key (attendance (run ops)))"
  unfolding run_def by (rule foldl_step_distinct) (simp add: empty_db_def)

lemma check_in_again:
  "find (for_user_date uid (get_today_date clk)) (attendance d) \<noteq> None \<Longrightarrow>
     check_in clk d uid nm st tk loc tj = ((False, msg_already_checked_in), d)"
  by (simp add: check_in_def Let_def)

lemma check_in_has_record:
  "find (for_user_date uid (get_today_date clk))
     (attendance (snd (check_in clk d uid nm st tk loc tj))) \<noteq> None"
  using check_in_keys[of clk d uid nm st tk loc tj]
  by (auto simp: find_for_user_date_None split: if_splits)

lemma find_map_if:
  assumes "\<And>r. P (f r) = P r"
  shows "find P (map (\<lambda>r. if P r then f r else r) rows) = map_option f (find P rows)"
  using assms by (induction rows) auto


lemma find_map_if_other:
  assumes "\<And>r. Q (f r) = Q r" and "\<And>r. P r \<Longrightarrow> \<not> Q r"
  shows "find Q (map (\<lambda>r. if P r then f r else r) rows) = find Q rows"
  using assms by (induction rows) auto




lemma register_user_Str:
  "register_user d (Str i) (Str n)
     = (True, d\<lparr>users := filter (\<lambda>u. u_user_id u \<noteq> i) (users d)
                          @ [\<lparr>u_user_id = i, u_user_name = n, is_active = 1\<rparr>]\<rparr>)"
  by (simp add: register_user_def insert_or_replace_user_def)

lemma register_user_Unencodable:
  "uid = Unencodable \<or> uname = Unencodable \<Longrightarrow> register_user d uid uname = (False, d)"
  by (auto simp: register_user_def insert_or_replace_user_def split: pystr.splits)

lemma register_user_flag:
  "fst (register_user d uid uname) \<longleftrightarrow> (\<exists>i n. uid = Str i \<and> uname = Str n)"
  by (auto simp: register_user_def insert_or_replace_user_def split: pystr.splits)

lemma check_out_stored:
  assumes "sqlite_int compl"
  shows "check_out clk d uid compl summary
     = (if length (filter (for_user_date uid (get_today_date clk)) (attendance d)) = 0
        then (False, msg_not_checked_in)
        else (True, msg_check_out_ok @ str_int compl @ ''%''),
        d\<lparr>attendance := map (\<lambda>r. if for_user_date uid (get_today_date clk) r
                                     then r\<lparr>check_out_time := Some (get_current_time clk),
                                            completion := Some compl,
                                            evening_status := Some evening_done,
                                            work_summary := Some summary\<rparr>
                                     else r) (attendance d)\<rparr>)"
  using assms by (simp add: check_out_def update_check_out_def Let_def)


lemma sqlite_int_0: "sqlite_int 0"
  by (simp add: sqlite_int_def)

subsection \<open>The directory after a registration\<close>

lemma register_user_listed:
  "(i, n) \<in> set (get_all_users (snd (register_user d (Str i) (Str n))))"
  by (simp add: get_all_users_def register_user_Str)

lemma register_user_row:
  "filter (\<lambda>u. u_user_id u = i) (users (snd (register_user d (Str i) (Str n))))
     = [\<lparr>u_user_id = i, u_user_name = n, is_active = 1\<rparr>]"
proof -
  have "filter (\<lambda>u. u_user_id u = i) (filter (\<lambda>u. u_user_id u \<noteq> i) (users d)) = []"
    by (simp add: filter_empty_conv)
  then show ?thesis
    by (simp add: register_user_Str)
qed

lemma feishu_webhook_db:
  "msg_type ev = Some ''text'' \<Longrightarrow>
     snd (feishu_webhook lib hook clk d (Some ev))
       = snd (register_user d
                (case sender_user_id ev of None \<Rightarrow> Str [] | Some u \<Rightarrow> u)
                (case sender_name ev of None \<Rightarrow> Str unknown_user | Some n \<Rightarrow> n))"
  unfolding feishu_webhook_def Let_def
  by (simp split: sum.splits)

lemma check_in_success_db:
  "fst (fst (check_in clk d uid uname st tk loc tj)) = True \<Longrightarrow>
     \<exists>d1. snd (check_in clk d uid uname st tk loc tj)
            = snd (register_user d1 (Str uid) (Str uname))"
  unfolding check_in_def insert_attendance_def Let_def
  by (auto split: if_splits)

subsection \<open>The text of the report\<close>

lemma foldl_append_concat:
  "foldl (\<lambda>c x. c @ f x) c0 xs = c0 @ concat (map f xs)"
  by (induction xs arbitrary: c0) simp_all

lemma status_entry_row_status: "status_entry (row_status r v) = entry_text r"
  by (simp add: status_entry_def row_status_def entry_text_def truthy_def fmt_str_def Let_def
      split: option.splits)

lemma results_decodable:
  "\<forall>r \<in> set rows. tasks_decodable lib r \<Longrightarrow>
     \<exists>ss. results lib rows = Inr ss \<and> map s_name ss = map user_name rows
          \<and> map status_entry ss = map entry_text rows"
proof (induction rows)
  case Nil
  then show ?case by simp
next
  case (Cons r rows)
  then obtain ss where ss: "results lib rows = Inr ss" "map s_name ss = map user_name rows"
      "map status_entry ss = map entry_text rows"
    by auto
  from Cons.prems obtain v where v: "decode_tasks lib (tasks_json r) = Inr v"
    by (auto simp: tasks_decodable_def split: sum.splits)
  have "results lib (r # rows) = Inr (row_status r v # ss)"
    by (simp add: v ss(1))
  moreover have "map s_name (row_status r v # ss) = map user_name (r # rows)"
    by (simp add: ss(2) row_status_def)
  moreover have "map status_entry (row_status r v # ss) = map entry_text (r # rows)"
    by (simp add: ss(3) status_entry_row_status)
  ultimately show ?case by blast
qed

lemma not_checked_in_names:
  "map snd (filter (\<lambda>u. snd u \<notin> N) (get_all_users d))
     = map u_user_name (filter (\<lambda>u. is_active u = 1 \<and> u_user_name u \<notin> N) (users d))"
  by (induction "users d" arbitrary: d) (simp_all add: get_all_users_def filter_map comp_def)

lemma distinct_map_occurs_once:
  "distinct (map f xs) \<Longrightarrow> x \<in> set xs \<Longrightarrow> length (filter (\<lambda>y. f y = f x) xs) = 1"
proof (induction xs)
  case Nil
  then show ?case by simp
next
  case (Cons a xs)
  show ?case
  proof (cases "f a = f x")
    case True
    then have "f x \<notin> f ` set xs"
      using Cons.prems(1) by simp
    then have "filter (\<lambda>y. f y = f x) xs = []"
      by (force simp: filter_empty_conv image_iff)
    with True show ?thesis by simp
  next
    case False
    with Cons show ?thesis by auto
  qed
qed

lemma todays_rows_distinct_users:
  "unique_user_date d \<Longrightarrow> distinct (map user_id (todays_rows clk d))"
proof -
  assume "unique_user_date d"
  then have "distinct (map row_key (todays_rows clk d))"
    by (simp add: unique_user_date_def todays_rows_def distinct_map_filter)
  moreover have "map row_key (todays_rows clk d)
      = map (\<lambda>r. (user_id r, get_today_date clk)) (todays_rows clk d)"
    by (simp add: todays_rows_def row_key_def)
  ultimately have "distinct (map (\<lambda>r. (user_id r, get_today_date clk)) (todays_rows clk d))"
    by simp
  then show ?thesis
    by (simp add: distinct_map inj_on_def)
qed

lemma sorted_rows_distinct_users:
  "unique_user_date d \<Longrightarrow>
     distinct (map user_id (sort_key check_in_time (todays_rows clk d)))"
proof -
  assume "unique_user_date d"
  then have "distinct (map user_id (todays_rows clk d))"
    by (rule todays_rows_distinct_users)
  moreover have "mset (map user_id (sort_key check_in_time (todays_rows clk d)))
      = mset (map user_id (todays_rows clk d))"
    by simp
  ultimately show ?thesis
    using mset_eq_imp_distinct_iff by blast
qed

lemma build_daily_report_text:
  assumes "\<forall>r \<in> set (todays_rows clk d). tasks_decodable lib r"
  shows "build_daily_report lib clk d
     = Inr (report_text (get_today_date clk) (sort_key check_in_time (todays_rows clk d))
              (absent_users clk d))"
proof -
  let ?rows = "sort_key check_in_time (todays_rows clk d)"
  from assms have "\<forall>r \<in> set ?rows. tasks_decodable lib r"
    by simp
  from results_decodable [OF this] obtain ss where
    ss: "results lib ?rows = Inr ss" "map s_name ss = map user_name ?rows"
      "map status_entry ss = map entry_text ?rows"
    by blast
  have today: "get_today_status lib clk d = Inr ss"
    unfolding get_today_status_def todays_rows_def [symmetric] by (rule ss(1))
  have names: "set (map s_name ss) = set (map user_name (todays_rows clk d))"
    by (simp add: ss(2))
  have roster: "map snd (filter (\<lambda>u. snd u \<notin> set (map s_name ss)) (get_all_users d))
      = map u_user_name (absent_users clk d)"
    unfolding names absent_users_def by (rule not_checked_in_names)
  define nci where
    "nci = map snd (filter (\<lambda>u. snd u \<notin> set (map s_name ss)) (get_all_users d))"
  define c0 where "c0 = report_head_pre @ get_today_date clk @ [CHR 0x0A, CHR 0x0A]"
  define c1 where
    "c1 = (if ss \<noteq> [] then foldl (\<lambda>c s. c @ status_entry s) c0 ss else c0)"
  have built: "build_daily_report lib clk d
      = Inr (if nci \<noteq> []
             then foldl (\<lambda>c n. c @ bullet @ n @ [CHR 0x0A]) (c1 @ not_checked_in_title) nci
             else c1)"
    unfolding build_daily_report_def today Let_def nci_def c0_def c1_def
    by (simp only: sum.case)
  have nci: "nci = map u_user_name (absent_users clk d)"
    unfolding nci_def by (rule roster)
  have first: "c1 = c0 @ concat (map entry_text ?rows)"
  proof (cases "ss = []")
    case True
    with ss(3) have "map entry_text ?rows = []" by simp
    with True show ?thesis by (simp add: c1_def)
  next
    case False
    then show ?thesis
      by (simp add: c1_def foldl_append_concat ss(3))
  qed
  have second: "(if nci \<noteq> []
             then foldl (\<lambda>c n. c @ bullet @ n @ [CHR 0x0A]) (c1 @ not_checked_in_title) nci
             else c1)
      = c1 @ (if absent_users clk d = [] then []
              else not_checked_in_title
                   @ concat (map (\<lambda>u. bullet @ u_user_name u @ [CHR 0x0A]) (absent_users clk d)))"
  proof (cases "absent_users clk d = []")
    case True
    then show ?thesis by (simp add: nci)
  next
    case False
    then have "nci \<noteq> []" by (simp add: nci)
    then show ?thesis
      using False by (simp add: foldl_append_concat nci comp_def)
  qed
  have "build_daily_report lib clk d
      = Inr (c1 @ (if absent_users clk d = [] then []
              else not_checked_in_title
                   @ concat (map (\<lambda>u. bullet @ u_user_name u @ [CHR 0x0A]) (absent_users clk d))))"
    by (simp only: built second)
  then show ?thesis
    unfolding first report_text_def c0_def by simp
qed

subsection \<open>One record per user and day\<close>

text \<open>
  Claim C1. Whatever sequence of operations has run, the ledger holds at most one record
  for a user and a date. A \<open>check_in\<close> for a user who already has a record today returns
  the failure outcome with the "already checked in" message and leaves the whole database,
  so every field of that record, as it was; in particular a second \<open>check_in\<close> on the
  day of a first one does, whatever its arguments.
\<close>

theorem check_in_at_most_once:
  "length (filter (for_user_date uid day) (attendance (run ops))) \<le> 1
   \<and> (find (for_user_date uid (get_today_date clk)) (attendance d) \<noteq> None \<longrightarrow>
        check_in clk d uid nm st tk loc tj = ((False, msg_already_checked_in), d))
   \<and> (get_today_date clk' = get_today_date clk \<longrightarrow>
        check_in clk' (snd (check_in clk d uid nm st tk loc tj)) uid nm' st' tk' loc' tj'
          = ((False, msg_already_checked_in), snd (check_in clk d uid nm st tk loc tj)))"
proof (intro conjI impI)
  show "length (filter (for_user_date uid day) (attendance (run ops))) \<le> 1"
    by (rule distinct_keys_at_most_one) (rule run_distinct)
next
  assume "find (for_user_date uid (get_today_date clk)) (attendance d) \<noteq> None"
  then show "check_in clk d uid nm st tk loc tj = ((False, msg_already_checked_in), d)"
    by (rule check_in_again)
next
  assume same: "get_today_date clk' = get_today_date clk"
  have "find (for_user_date uid (get_today_date clk'))
          (attendance (snd (check_in clk d uid nm st tk loc tj))) \<noteq> None"
    unfolding same by (rule check_in_has_record)
  then show "check_in clk' (snd (check_in clk d uid nm st tk loc tj)) uid nm' st' tk' loc' tj'
          = ((False, msg_already_checked_in), snd (check_in clk d uid nm st tk loc tj))"
    by (rule check_in_again)
qed

theorem check_in_at_most_once_witness:
  "length (filter (for_user_date ''u1'' ''2024-05-06'') (attendance db_alice)) = 1
   \<and> find (for_user_date ''u1'' (get_today_date clk_evening)) (attendance db_alice) \<noteq> None
   \<and> check_in clk_evening db_alice ''u1'' ''alice'' ''Home'' ''Subtitles'' ''Home'' ''[]''
       = ((False, msg_already_checked_in), db_alice)
   \<and> get_today_date clk_evening = get_today_date clk_morning
   \<and> check_in clk_evening
        (snd (check_in clk_morning empty_db ''u1'' ''alice'' ''Office'' ''Edit video'' ''Office'' ''[]''))
        ''u1'' ''alice'' ''Home'' ''Subtitles'' ''Home'' ''[]''
       = ((False, msg_already_checked_in),
          snd (check_in clk_morning empty_db ''u1'' ''alice'' ''Office'' ''Edit video'' ''Office'' ''[]''))"
proof -
  have rec: "find (for_user_date ''u1'' (get_today_date clk_evening)) (attendance db_alice) \<noteq> None"
    by (simp add: db_alice_def run_def check_in_def insert_attendance_def empty_db_def
        register_user_Str for_user_date_def get_today_date_def get_current_time_def
        clk_morning_def clk_evening_def Let_def)
  have one: "length (filter (for_user_date ''u1'' ''2024-05-06'') (attendance db_alice)) = 1"
    by (simp add: db_alice_def run_def check_in_def insert_attendance_def empty_db_def
        register_user_Str for_user_date_def get_today_date_def get_current_time_def
        clk_morning_def Let_def)
  have day: "get_today_date clk_evening = get_today_date clk_morning"
    by (simp add: get_today_date_def clk_morning_def clk_evening_def)
  note inst1 = check_in_at_most_once [of "''u1''" "''2024-05-06''"
      "[CheckIn clk_morning ''u1'' ''alice'' ''Office'' ''Edit video'' ''Office'' ''[]'']"
      clk_evening db_alice "''alice''" "''Home''" "''Subtitles''" "''Home''" "''[]''"]
  note inst2 = check_in_at_most_once [of "''u1''" "''2024-05-06''" "[]"
      clk_morning empty_db "''alice''" "''Office''" "''Edit video''" "''Office''" "''[]''"
      clk_evening "''alice''" "''Home''" "''Subtitles''" "''Home''" "''[]''"]
  from inst1 rec have a: "check_in clk_evening db_alice ''u1'' ''alice'' ''Home'' ''Subtitles'' ''Home'' ''[]''
       = ((False, msg_already_checked_in), db_alice)" by blast
  from inst2 day have b: "check_in clk_evening
        (snd (check_in clk_morning empty_db ''u1'' ''alice'' ''Office'' ''Edit video'' ''Office'' ''[]''))
        ''u1'' ''alice'' ''Home'' ''Subtitles'' ''Home'' ''[]''
       = ((False, msg_already_checked_in),
          snd (check_in clk_morning empty_db ''u1'' ''alice'' ''Office'' ''Edit video'' ''Office'' ''[]''))"
    by blast
  from one rec a day b show ?thesis by blast
qed

subsection \<open>Check-out without a check-in\<close>




subsection \<open>Check-out after check-in\<close>




subsection \<open>The settings store\<close>

text \<open>
  Claim C6. After \<open>set_setting key v\<close>, \<open>get_setting key\<close> returns \<open>v\<close> itself, whatever
  the default. The store keeps the string as it is, so decoding what is read gives what
  decoding the written string gives: when \<open>v\<close> is the JSON text of a structured value
  (a list of task tags or of status options), \<^verbatim>\<open>json.loads\<close> of the value read, and the entry
  of \<open>get_all_settings\<close>, are that value. For a key that is absent, \<open>get_setting\<close>
  returns the default.
\<close>

theorem settings_round_trip:
  "get_setting (set_setting clk d key v) key dflt = v
   \<and> (json_loads lib v = Some j \<longrightarrow>
        json_loads lib (get_setting (set_setting clk d key v) key dflt) = Some j
        \<and> get_all_settings lib (set_setting clk d key v) key = Some j)
   \<and> (settings d key = None \<longrightarrow> get_setting d key dflt = dflt)"
  by (simp add: get_setting_def set_setting_def get_all_settings_def)

theorem settings_round_trip_witness:
  "json_loads sample_lib (''['' @ [CHR 0x22] @ ''Remote'' @ [CHR 0x22] @ '']'')
     = Some (JList [JStr ''Remote''])
   \<and> get_setting (set_setting clk_morning empty_db ''status_options''
                    (''['' @ [CHR 0x22] @ ''Remote'' @ [CHR 0x22] @ '']'')) ''status_options'' []
       = ''['' @ [CHR 0x22] @ ''Remote'' @ [CHR 0x22] @ '']''
   \<and> get_all_settings sample_lib
        (set_setting clk_morning empty_db ''status_options''
           (''['' @ [CHR 0x22] @ ''Remote'' @ [CHR 0x22] @ '']'')) ''status_options''
       = Some (JList [JStr ''Remote''])
   \<and> settings empty_db ''noon_time'' = None
   \<and> get_setting empty_db ''noon_time'' ''13:00'' = ''13:00''"
proof -
  have dec: "json_loads sample_lib (''['' @ [CHR 0x22] @ ''Remote'' @ [CHR 0x22] @ '']'')
     = Some (JList [JStr ''Remote''])"
    by (simp add: sample_lib_def sample_loads_def)
  have absent: "settings empty_db ''noon_time'' = None"
    by (simp add: empty_db_def)
  from settings_round_trip [of clk_morning empty_db "''status_options''"
      "''['' @ [CHR 0x22] @ ''Remote'' @ [CHR 0x22] @ '']''" "[]" sample_lib
      "JList [JStr ''Remote'']"] dec
  have a: "get_setting (set_setting clk_morning empty_db ''status_options''
                    (''['' @ [CHR 0x22] @ ''Remote'' @ [CHR 0x22] @ '']'')) ''status_options'' []
       = ''['' @ [CHR 0x22] @ ''Remote'' @ [CHR 0x22] @ '']''"
    and b: "get_all_settings sample_lib
        (set_setting clk_morning empty_db ''status_options''
           (''['' @ [CHR 0x22] @ ''Remote'' @ [CHR 0x22] @ '']'')) ''status_options''
       = Some (JList [JStr ''Remote''])"
    by blast+
  from settings_round_trip [of clk_morning empty_db "''noon_time''" "[]" "''13:00''"
      sample_lib JNull] absent
  have c: "get_setting empty_db ''noon_time'' ''13:00'' = ''13:00''"
    by blast
  from dec a b absent c show ?thesis by blast
qed

subsection \<open>Progress updates\<close>



subsection \<open>Registering a user\<close>



subsection \<open>The daily report\<close>

text \<open>
  Claim C3, as the code has it. Take a database that meets the two uniqueness constraints
  of the schema, and in which the task list of every record of today is \<^verbatim>\<open>NULL\<close>, empty or
  text that \<^verbatim>\<open>json.loads\<close> accepts. Then \<open>build_daily_report\<close> returns the text made of the
  heading, one entry for each record of today in the order of the check-in times, and,
  when it is not empty, the titled roster of the absent users. The records entered are
  exactly those of today's ledger and every user of today's ledger has exactly one entry.
  The roster holds exactly the active users whose display name is on no record of today,
  each of them once.
\<close>

theorem daily_report_lists_everyone_once:
  assumes dec: "\<forall>r \<in> set (todays_rows clk d). tasks_decodable lib r"
    and rows: "unique_user_date d"
    and ids: "unique_user_id d"
  shows "build_daily_report lib clk d
       = Inr (report_text (get_today_date clk) (sort_key check_in_time (todays_rows clk d))
                (absent_users clk d))
   \<and> set (sort_key check_in_time (todays_rows clk d))
       = {r \<in> set (attendance d). date r = get_today_date clk}
   \<and> (\<forall>r \<in> set (todays_rows clk d).
         occurrences (\<lambda>x. user_id x = user_id r) (sort_key check_in_time (todays_rows clk d)) = 1)
   \<and> set (absent_users clk d)
       = {u \<in> set (users d). is_active u = 1
                              \<and> u_user_name u \<notin> user_name ` set (todays_rows clk d)}
   \<and> (\<forall>u \<in> set (absent_users clk d).
         occurrences (\<lambda>x. u_user_id x = u_user_id u) (absent_users clk d) = 1)"
proof (intro conjI ballI)
  show "build_daily_report lib clk d
       = Inr (report_text (get_today_date clk) (sort_key check_in_time (todays_rows clk d))
                (absent_users clk d))"
    using dec by (rule build_daily_report_text)
next
  show "set (sort_key check_in_time (todays_rows clk d))
       = {r \<in> set (attendance d). date r = get_today_date clk}"
    by (simp add: todays_rows_def)
next
  fix r
  assume "r \<in> set (todays_rows clk d)"
  then have "r \<in> set (sort_key check_in_time (todays_rows clk d))"
    by simp
  with sorted_rows_distinct_users [OF rows, of clk]
  show "occurrences (\<lambda>x. user_id x = user_id r) (sort_key check_in_time (todays_rows clk d)) = 1"
    unfolding occurrences_def by (rule distinct_map_occurs_once)
next
  show "set (absent_users clk d)
       = {u \<in> set (users d). is_active u = 1
                              \<and> u_user_name u \<notin> user_name ` set (todays_rows clk d)}"
    by (auto simp: absent_users_def)
next
  fix u
  assume u: "u \<in> set (absent_users clk d)"
  have "distinct (map u_user_id (absent_users clk d))"
    using ids by (simp add: unique_user_id_def absent_users_def distinct_map_filter)
  from this u
  show "occurrences (\<lambda>x. u_user_id x = u_user_id u) (absent_users clk d) = 1"
    unfolding occurrences_def by (rule distinct_map_occurs_once)
qed

theorem daily_report_lists_everyone_once_witness:
  "list_all (tasks_decodable sample_lib) (todays_rows clk_evening db_team)
   \<and> unique_user_date db_team
   \<and> unique_user_id db_team
   \<and> map user_name (sort_key check_in_time (todays_rows clk_evening db_team)) = [''bob'', ''alice'']
   \<and> map u_user_name (absent_users clk_evening db_team) = [''carol'']
   \<and> hd (todays_rows clk_evening db_team) \<in> set (todays_rows clk_evening db_team)
   \<and> build_daily_report sample_lib clk_evening db_team
       = Inr (report_text (get_today_date clk_evening)
                (sort_key check_in_time (todays_rows clk_evening db_team))
                (absent_users clk_evening db_team))
   \<and> occurrences (\<lambda>x. user_id x = user_id (hd (todays_rows clk_evening db_team)))
        (sort_key check_in_time (todays_rows clk_evening db_team)) = 1"
proof -
  have all: "list_all (tasks_decodable sample_lib) (todays_rows clk_evening db_team)"
    by code_simp
  then have dec: "\<forall>r \<in> set (todays_rows clk_evening db_team). tasks_decodable sample_lib r"
    by (simp add: list_all_iff)
  have rows: "unique_user_date db_team"
    by code_simp
  have ids: "unique_user_id db_team"
    by code_simp
  have present: "map user_name (sort_key check_in_time (todays_rows clk_evening db_team))
      = [''bob'', ''alice'']"
    by code_simp
  have absent: "map u_user_name (absent_users clk_evening db_team) = [''carol'']"
    by code_simp
  have mem: "hd (todays_rows clk_evening db_team) \<in> set (todays_rows clk_evening db_team)"
    by code_simp
  note inst = daily_report_lists_everyone_once [OF dec rows ids]
  from inst have rep: "build_daily_report sample_lib clk_evening db_team
       = Inr (report_text (get_today_date clk_evening)
                (sort_key check_in_time (todays_rows clk_evening db_team))
                (absent_users clk_evening db_team))"
    by blast
  from inst mem have once:
    "occurrences (\<lambda>x. user_id x = user_id (hd (todays_rows clk_evening db_team)))
        (sort_key check_in_time (todays_rows clk_evening db_team)) = 1"
    by blast
  from all rows ids present absent mem rep once show ?thesis by blast
qed

text \<open>
  The claim as stated holds of every ledger state. A record whose task list is not JSON,
  which \<open>check_in\<close> stores as it is given, makes the report raise: there is no output.
\<close>

theorem daily_report_raises_on_bad_tasks:
  "db_bad_tasks
     = snd (check_in clk_morning empty_db ''u1'' ''alice'' ''Office'' ''Edit video'' ''Office''
              ''{bad'')
   \<and> json_loads sample_lib ''{bad'' = None
   \<and> map tasks_json (todays_rows clk_evening db_bad_tasks) = [Some ''{bad'']
   \<and> unique_user_date db_bad_tasks
   \<and> unique_user_id db_bad_tasks
   \<and> build_daily_report sample_lib clk_evening db_bad_tasks = Inl JSONDecodeError"
proof -
  have 1: "db_bad_tasks
     = snd (check_in clk_morning empty_db ''u1'' ''alice'' ''Office'' ''Edit video'' ''Office''
              ''{bad'')"
    by (simp add: db_bad_tasks_def run_def)
  have 2: "json_loads sample_lib ''{bad'' = None"
    by (simp add: sample_lib_def sample_loads_def)
  have 3: "map tasks_json (todays_rows clk_evening db_bad_tasks) = [Some ''{bad'']"
    by code_simp
  have 4: "unique_user_date db_bad_tasks"
    by code_simp
  have 5: "unique_user_id db_bad_tasks"
    by code_simp
  have 6: "build_daily_report sample_lib clk_evening db_bad_tasks = Inl JSONDecodeError"
    by code_simp
  from 1 2 3 4 5 6 show ?thesis by blast
qed

subsection \<open>The check-in card\<close>

text \<open>
  Claim C4, as the code has it. When the message handler receives a text message that is
  a check-in keyword once stripped, and the configured task tags are a list or a string,
  it acknowledges and sends one interactive card. Whatever the settings hold, the buttons
  of that card are the four of the fixed statuses "in the office", "filming outside",
  "working from home" and "in a meeting", and the payload of each is
  \<^verbatim>\<open>{action: "checkin", status}\<close> for its status. When the configured task tags are
  neither a list nor a string, slicing them raises, and the handler answers 500 and sends
  nothing.
\<close>

theorem checkin_card_fixed_statuses:
  fixes ev :: webhook_event and d :: db and lib :: pylib
  defines "d1 \<equiv> snd (register_user d
                        (case sender_user_id ev of None \<Rightarrow> Str [] | Some u \<Rightarrow> u)
                        (case sender_name ev of None \<Rightarrow> Str unknown_user | Some n \<Rightarrow> n))"
  defines "task_tags \<equiv> (case get_all_settings lib d1 ''task_tags'' of
                           None \<Rightarrow> JList [JStr tag_video_editing, JStr tag_copywriting,
                                           JStr tag_filming]
                         | Some v \<Rightarrow> v)"
  assumes istext: "msg_type ev = Some ''text''"
    and kw: "strip (case text_content ev of None \<Rightarrow> [] | Some t \<Rightarrow> t)
               \<in> set [kw_checkin, ''/checkin'', ''/'' @ kw_checkin]"
  shows "(sliceable task_tags \<longrightarrow>
            fst (feishu_webhook lib hook clk d (Some ev))
              = (resp_ok,
                 [(hook, InteractiveMessage (checkin_card lib (get_all_settings lib d1)))]))
   \<and> (\<not> sliceable task_tags \<longrightarrow>
            fst (feishu_webhook lib hook clk d (Some ev)) = (resp_internal_error, []))
   \<and> map btn_value (card_buttons (checkin_card lib setts))
       = map checkin_payload [status_office, status_outdoor, status_home, status_meeting]"
proof (intro conjI impI)
  assume "sliceable task_tags"
  then show "fst (feishu_webhook lib hook clk d (Some ev))
              = (resp_ok,
                 [(hook, InteractiveMessage (checkin_card lib (get_all_settings lib d1)))])"
    using istext kw unfolding feishu_webhook_def d1_def task_tags_def Let_def
    by (simp add: send_feishu_message_def)
next
  assume "\<not> sliceable task_tags"
  then show "fst (feishu_webhook lib hook clk d (Some ev)) = (resp_internal_error, [])"
    using istext kw unfolding feishu_webhook_def d1_def task_tags_def Let_def
    by simp
next
  show "map btn_value (card_buttons (checkin_card lib setts))
       = map checkin_payload [status_office, status_outdoor, status_home, status_meeting]"
    by (simp add: card_buttons_def checkin_card_def checkin_button_def checkin_payload_def)
qed

theorem checkin_card_fixed_statuses_witness:
  "msg_type ev_text_checkin = Some ''text''
   \<and> strip (case text_content ev_text_checkin of None \<Rightarrow> [] | Some t \<Rightarrow> t)
       \<in> set [kw_checkin, ''/checkin'', ''/'' @ kw_checkin]
   \<and> fst (feishu_webhook sample_lib hook_url clk_morning db_remote (Some ev_text_checkin))
       = (resp_ok,
          [(hook_url,
            InteractiveMessage
              (checkin_card sample_lib
                 (get_all_settings sample_lib (snd (register_user db_remote (Str ''u1'') (Str ''alice''))))))])"
proof -
  have istext: "msg_type ev_text_checkin = Some ''text''"
    by (simp add: ev_text_checkin_def)
  have st: "strip (case text_content ev_text_checkin of None \<Rightarrow> [] | Some t \<Rightarrow> t) = ''/checkin''"
    by (simp add: ev_text_checkin_def strip_def is_space1_def is_space2_def is_space3_def)
  have kw: "strip (case text_content ev_text_checkin of None \<Rightarrow> [] | Some t \<Rightarrow> t)
       \<in> set [kw_checkin, ''/checkin'', ''/'' @ kw_checkin]"
    unfolding st by simp
  have s1: "(case sender_user_id ev_text_checkin of None \<Rightarrow> Str [] | Some u \<Rightarrow> u)
               = Str ''u1''"
    and s2: "(case sender_name ev_text_checkin of None \<Rightarrow> Str unknown_user | Some n \<Rightarrow> n)
               = Str ''alice''"
    by (simp_all add: ev_text_checkin_def)
  have tags: "get_all_settings sample_lib (snd (register_user db_remote (Str ''u1'') (Str ''alice'')))
                ''task_tags'' = None"
    by (simp add: get_all_settings_def register_user_Str db_remote_def run_def set_setting_def
        empty_db_def)
  have sl: "sliceable (case get_all_settings sample_lib
                             (snd (register_user db_remote (Str ''u1'') (Str ''alice''))) ''task_tags'' of
                         None \<Rightarrow> JList [JStr tag_video_editing, JStr tag_copywriting,
                                         JStr tag_filming]
                       | Some v \<Rightarrow> v)"
    by (simp add: tags sliceable_def)
  note inst = checkin_card_fixed_statuses [OF istext kw, of sample_lib db_remote hook_url
      clk_morning, unfolded s1 s2]
  from inst sl have sent: "fst (feishu_webhook sample_lib hook_url clk_morning db_remote
        (Some ev_text_checkin))
       = (resp_ok,
          [(hook_url,
            InteractiveMessage
              (checkin_card sample_lib
                 (get_all_settings sample_lib (snd (register_user db_remote (Str ''u1'') (Str ''alice''))))))])"
    by blast
  from istext kw sent show ?thesis by blast
qed

text \<open>
  The claim as stated says that the card is built from the configured status options.
  With the single option ``Remote'' configured, the card sent on \<^verbatim>\<open>/checkin\<close> still has the
  four fixed buttons and none for ``Remote''.
\<close>

theorem checkin_card_ignores_status_options:
  "get_all_settings sample_lib db_remote ''status_options'' = Some (JList [JStr ''Remote''])
   \<and> fst (feishu_webhook sample_lib hook_url clk_morning db_remote (Some ev_text_checkin))
       = (resp_ok,
          [(hook_url,
            InteractiveMessage
              (checkin_card sample_lib
                 (get_all_settings sample_lib (snd (register_user db_remote (Str ''u1'') (Str ''alice''))))))])
   \<and> map btn_value
        (card_buttons
           (checkin_card sample_lib
              (get_all_settings sample_lib (snd (register_user db_remote (Str ''u1'') (Str ''alice''))))))
       = [checkin_payload status_office, checkin_payload status_outdoor,
          checkin_payload status_home, checkin_payload status_meeting]
   \<and> map btn_value
        (card_buttons
           (checkin_card sample_lib
              (get_all_settings sample_lib (snd (register_user db_remote (Str ''u1'') (Str ''alice''))))))
       \<noteq> map checkin_payload [''Remote'']"
proof -
  have conf: "get_all_settings sample_lib db_remote ''status_options''
                = Some (JList [JStr ''Remote''])"
    by (simp add: get_all_settings_def db_remote_def run_def set_setting_def empty_db_def
        sample_lib_def sample_loads_def)
  have st: "strip '' /checkin '' = ''/checkin''"
    by (simp add: strip_def is_space1_def is_space2_def is_space3_def)
  have tags: "get_all_settings sample_lib (snd (register_user db_remote (Str ''u1'') (Str ''alice'')))
                ''task_tags'' = None"
    by (simp add: get_all_settings_def register_user_Str db_remote_def run_def set_setting_def
        empty_db_def)
  have sent: "fst (feishu_webhook sample_lib hook_url clk_morning db_remote
        (Some ev_text_checkin))
       = (resp_ok,
          [(hook_url,
            InteractiveMessage
              (checkin_card sample_lib
                 (get_all_settings sample_lib (snd (register_user db_remote (Str ''u1'') (Str ''alice''))))))])"
    unfolding feishu_webhook_def Let_def
    by (simp add: ev_text_checkin_def st tags sliceable_def send_feishu_message_def)
  have four: "map btn_value
        (card_buttons
           (checkin_card sample_lib
              (get_all_settings sample_lib (snd (register_user db_remote (Str ''u1'') (Str ''alice''))))))
       = [checkin_payload status_office, checkin_payload status_outdoor,
          checkin_payload status_home, checkin_payload status_meeting]"
    by (simp add: card_buttons_def checkin_card_def checkin_button_def checkin_payload_def)
  have differ: "map btn_value
        (card_buttons
           (checkin_card sample_lib
              (get_all_settings sample_lib (snd (register_user db_remote (Str ''u1'') (Str ''alice''))))))
       \<noteq> map checkin_payload [''Remote'']"
    unfolding four by simp
  from conf sent four differ show ?thesis by blast
qed

subsection \<open>Registrations reactivate\<close>

text \<open>
  Claim C9, as the code has it. A call of \<open>register_user\<close> that succeeds stores the user
  with the active flag 1, whatever the flag was: after it the user is in the listing of
  the active users, under the name given. A call that fails returns \<^verbatim>\<open>False\<close> and changes
  nothing. The message handler calls \<open>register_user\<close> for the sender of every text
  message, so the sender is in the listing afterwards when that call succeeds; the
  callback handler registers the operator only through a \<open>check_in\<close> that succeeds, and
  the operator is in the listing after such a check-in action. Nothing is said of the
  other events.
\<close>

theorem register_user_reactivates:
  fixes wev :: webhook_event and cev :: callback_event
  defines "sender \<equiv> (case sender_user_id wev of None \<Rightarrow> Str [] | Some u \<Rightarrow> u)"
  defines "sname \<equiv> (case sender_name wev of None \<Rightarrow> Str unknown_user | Some n \<Rightarrow> n)"
  defines "operator \<equiv> (case operator_user_id cev of None \<Rightarrow> [] | Some u \<Rightarrow> u)"
  defines "oname \<equiv> (case operator_name cev of None \<Rightarrow> unknown_user | Some n \<Rightarrow> n)"
  defines "ostatus \<equiv> (case cb_status cev of None \<Rightarrow> status_office | Some s \<Rightarrow> s)"
  shows "(fst (register_user d uid uname) = True \<longrightarrow>
           (\<exists>i n. uid = Str i \<and> uname = Str n
                  \<and> filter (\<lambda>u. u_user_id u = i) (users (snd (register_user d uid uname)))
                      = [\<lparr>u_user_id = i, u_user_name = n, is_active = 1\<rparr>]
                  \<and> (i, n) \<in> set (get_all_users (snd (register_user d uid uname)))))
   \<and> (fst (register_user d uid uname) = False \<longrightarrow> snd (register_user d uid uname) = d)
   \<and> (msg_type wev = Some ''text'' \<longrightarrow>
        snd (feishu_webhook lib hook clk d (Some wev)) = snd (register_user d sender sname))
   \<and> (msg_type wev = Some ''text'' \<and> fst (register_user d sender sname) = True \<longrightarrow>
        (\<exists>i n. sender = Str i \<and> sname = Str n
               \<and> (i, n) \<in> set (get_all_users (snd (feishu_webhook lib hook clk d (Some wev))))))
   \<and> (cb_type cev = Some ''interactive'' \<and> cb_action cev = Some ''checkin''
        \<and> fst (fst (check_in clk d operator oname ostatus daily_work ostatus ''[]'')) = True \<longrightarrow>
        (operator, oname) \<in> set (get_all_users (snd (feishu_callback hook clk d (Some cev)))))"
proof (intro conjI impI)
  assume "fst (register_user d uid uname) = True"
  then obtain i n where "uid = Str i" "uname = Str n"
    by (auto simp: register_user_flag)
  then show "\<exists>i n. uid = Str i \<and> uname = Str n
                  \<and> filter (\<lambda>u. u_user_id u = i) (users (snd (register_user d uid uname)))
                      = [\<lparr>u_user_id = i, u_user_name = n, is_active = 1\<rparr>]
                  \<and> (i, n) \<in> set (get_all_users (snd (register_user d uid uname)))"
    by (simp add: register_user_row register_user_listed)
next
  assume "fst (register_user d uid uname) = False"
  then show "snd (register_user d uid uname) = d"
    by (simp add: register_user_def insert_or_replace_user_def split: pystr.splits)
next
  assume "msg_type wev = Some ''text''"
  then show "snd (feishu_webhook lib hook clk d (Some wev)) = snd (register_user d sender sname)"
    unfolding sender_def sname_def by (rule feishu_webhook_db)
next
  assume a: "msg_type wev = Some ''text'' \<and> fst (register_user d sender sname) = True"
  then obtain i n where "sender = Str i" "sname = Str n"
    by (auto simp: register_user_flag)
  moreover from a have "snd (feishu_webhook lib hook clk d (Some wev))
      = snd (register_user d sender sname)"
    unfolding sender_def sname_def by (simp add: feishu_webhook_db)
  ultimately show "\<exists>i n. sender = Str i \<and> sname = Str n
               \<and> (i, n) \<in> set (get_all_users (snd (feishu_webhook lib hook clk d (Some wev))))"
    by (simp add: register_user_listed)
next
  assume a: "cb_type cev = Some ''interactive'' \<and> cb_action cev = Some ''checkin''
        \<and> fst (fst (check_in clk d operator oname ostatus daily_work ostatus ''[]'')) = True"
  then have call: "snd (feishu_callback hook clk d (Some cev))
       = snd (check_in clk d operator oname ostatus daily_work ostatus ''[]'')"
    unfolding feishu_callback_def operator_def oname_def ostatus_def Let_def by simp
  from a have "fst (fst (check_in clk d operator oname ostatus daily_work ostatus ''[]'')) = True"
    by simp
  from check_in_success_db [OF this]
  obtain d1 where "snd (check_in clk d operator oname ostatus daily_work ostatus ''[]'')
       = snd (register_user d1 (Str operator) (Str oname))"
    by blast
  with call show "(operator, oname) \<in> set (get_all_users (snd (feishu_callback hook clk d (Some cev))))"
    by (simp add: register_user_listed)
qed

theorem register_user_reactivates_witness:
  "get_all_users db_inactive = []
   \<and> fst (register_user db_inactive (Str ''u1'') (Str ''alice'')) = True
   \<and> (''u1'', ''alice'')
       \<in> set (get_all_users (snd (register_user db_inactive (Str ''u1'') (Str ''alice''))))
   \<and> fst (register_user db_inactive (Str ''u1'') Unencodable) = False
   \<and> snd (register_user db_inactive (Str ''u1'') Unencodable) = db_inactive
   \<and> msg_type ev_text_hello = Some ''text''
   \<and> (''u1'', ''alice'')
       \<in> set (get_all_users
                (snd (feishu_webhook sample_lib hook_url clk_morning db_inactive
                        (Some ev_text_hello))))
   \<and> cb_type ev_checkin_home = Some ''interactive''
   \<and> cb_action ev_checkin_home = Some ''checkin''
   \<and> fst (fst (check_in clk_morning db_inactive ''u1'' ''alice'' ''Home'' daily_work ''Home'' ''[]''))
       = True
   \<and> (''u1'', ''alice'')
       \<in> set (get_all_users
                (snd (feishu_callback hook_url clk_morning db_inactive (Some ev_checkin_home))))"
proof -
  have off: "get_all_users db_inactive = []"
    by (simp add: get_all_users_def db_inactive_def)
  have istext: "msg_type ev_text_hello = Some ''text''"
    by (simp add: ev_text_hello_def)
  have s1: "(case sender_user_id ev_text_hello of None \<Rightarrow> Str [] | Some u \<Rightarrow> u) = Str ''u1''"
    and s2: "(case sender_name ev_text_hello of None \<Rightarrow> Str unknown_user | Some n \<Rightarrow> n)
               = Str ''alice''"
    by (simp_all add: ev_text_hello_def)
  have ty: "cb_type ev_checkin_home = Some ''interactive''"
    and act: "cb_action ev_checkin_home = Some ''checkin''"
    by (simp_all add: ev_checkin_home_def)
  have o1: "(case operator_user_id ev_checkin_home of None \<Rightarrow> [] | Some u \<Rightarrow> u) = ''u1''"
    and o2: "(case operator_name ev_checkin_home of None \<Rightarrow> unknown_user | Some n \<Rightarrow> n)
               = ''alice''"
    and o3: "(case cb_status ev_checkin_home of None \<Rightarrow> status_office | Some s \<Rightarrow> s) = ''Home''"
    by (simp_all add: ev_checkin_home_def)
  have good: "fst (register_user db_inactive (Str ''u1'') (Str ''alice'')) = True"
    by (simp add: register_user_Str)
  have bad: "fst (register_user db_inactive (Str ''u1'') Unencodable) = False"
    by (simp add: register_user_Unencodable)
  have cin: "fst (fst (check_in clk_morning db_inactive ''u1'' ''alice'' ''Home'' daily_work
      ''Home'' ''[]'')) = True"
    by (simp add: check_in_def insert_attendance_def db_inactive_def empty_db_def Let_def)
  note inst = register_user_reactivates [of db_inactive "Str ''u1''" "Str ''alice''"
      ev_text_hello sample_lib hook_url clk_morning ev_checkin_home,
      unfolded s1 s2 o1 o2 o3]
  note inst_bad = register_user_reactivates [of db_inactive "Str ''u1''" Unencodable
      ev_text_hello sample_lib hook_url clk_morning ev_checkin_home,
      unfolded s1 s2 o1 o2 o3]
  from inst good have a: "(''u1'', ''alice'')
       \<in> set (get_all_users (snd (register_user db_inactive (Str ''u1'') (Str ''alice''))))"
    by blast
  from inst_bad bad have a': "snd (register_user db_inactive (Str ''u1'') Unencodable) = db_inactive"
    by blast
  from inst istext good have b: "(''u1'', ''alice'')
       \<in> set (get_all_users
                (snd (feishu_webhook sample_lib hook_url clk_morning db_inactive
                        (Some ev_text_hello))))"
    by blast
  from inst ty act cin have c: "(''u1'', ''alice'')
       \<in> set (get_all_users
                (snd (feishu_callback hook_url clk_morning db_inactive (Some ev_checkin_home))))"
    by blast
  from off good a bad a' istext b ty act cin c show ?thesis by blast
qed

text \<open>
  The claim as stated says that any card action of a deactivated user reactivates them.
  A check-out action, and a check-in action on a day that already has a record, are
  acknowledged and answered, and leave the user out of the listing. So does a text
  message whose sender name cannot be stored: the registration fails.
\<close>

theorem card_action_without_registration:
  "get_all_users db_alice_inactive = []
   \<and> fst (feishu_callback hook_url clk_evening db_alice_inactive (Some ev_checkout_plain))
       = (resp_ok, [(hook_url, TextMessage (''@alice '' @ msg_check_out_ok @ ''0%''))])
   \<and> get_all_users
        (snd (feishu_callback hook_url clk_evening db_alice_inactive (Some ev_checkout_plain)))
       = []
   \<and> fst (feishu_callback hook_url clk_evening db_alice_inactive (Some ev_checkin_home))
       = (resp_ok, [(hook_url, TextMessage (''@alice '' @ msg_already_checked_in))])
   \<and> get_all_users
        (snd (feishu_callback hook_url clk_evening db_alice_inactive (Some ev_checkin_home)))
       = []
   \<and> get_all_users
        (snd (feishu_webhook sample_lib hook_url clk_evening db_alice_inactive
                (Some ev_text_bad_name)))
       = []"
proof -
  have att: "attendance db_alice_inactive
     = [\<lparr>row_id = 1, user_id = ''u1'', user_name = ''alice'', date = ''2024-05-06'',
         check_in_time = Some ''09:01:02'', check_out_time = None,
         morning_status = Some ''Office'', evening_status = None,
         location = Some ''Office'', task = Some ''Edit video'', tasks_json = Some ''[]'',
         completion = Some 0, progress_status = None, work_summary = None,
         created_at = Some ''2024-05-06 01:01:02''\<rparr>]"
    by (simp add: db_alice_inactive_def db_alice_def run_def check_in_def
        insert_attendance_def empty_db_def register_user_Str for_user_date_def
        get_today_date_def get_current_time_def clk_morning_def Let_def)
  have us: "users db_alice_inactive
     = [\<lparr>u_user_id = ''u1'', u_user_name = ''alice'', is_active = 0\<rparr>]"
    by (simp add: db_alice_inactive_def)
  have zero: "str_int 0 = ''0''"
    by code_simp
  have hook: "hook_url \<noteq> []"
    by (simp add: hook_url_def)
  have 1: "get_all_users db_alice_inactive = []"
    by (simp add: get_all_users_def us)
  have 2: "fst (feishu_callback hook_url clk_evening db_alice_inactive (Some ev_checkout_plain))
       = (resp_ok, [(hook_url, TextMessage (''@alice '' @ msg_check_out_ok @ ''0%''))])"
    by (simp add: feishu_callback_def ev_checkout_plain_def check_out_stored [OF sqlite_int_0]
        att for_user_date_def get_today_date_def get_current_time_def clk_evening_def Let_def
        send_text_message_def send_feishu_message_def hook zero)
  have 3: "get_all_users
        (snd (feishu_callback hook_url clk_evening db_alice_inactive (Some ev_checkout_plain)))
       = []"
    by (simp add: feishu_callback_def ev_checkout_plain_def check_out_stored [OF sqlite_int_0]
        us get_all_users_def Let_def)
  have 4: "fst (feishu_callback hook_url clk_evening db_alice_inactive (Some ev_checkin_home))
       = (resp_ok, [(hook_url, TextMessage (''@alice '' @ msg_already_checked_in))])"
    by (simp add: feishu_callback_def ev_checkin_home_def check_in_def att
        for_user_date_def get_today_date_def get_current_time_def clk_evening_def Let_def
        send_text_message_def send_feishu_message_def hook)
  have 5: "get_all_users
        (snd (feishu_callback hook_url clk_evening db_alice_inactive (Some ev_checkin_home)))
       = []"
    by (simp add: feishu_callback_def ev_checkin_home_def check_in_def att us
        for_user_date_def get_today_date_def get_current_time_def clk_evening_def Let_def
        get_all_users_def)
  have istext: "msg_type ev_text_bad_name = Some ''text''"
    by (simp add: ev_text_bad_name_def)
  have sn: "(case sender_name ev_text_bad_name of None \<Rightarrow> Str unknown_user | Some n \<Rightarrow> n)
      = Unencodable"
    by (simp add: ev_text_bad_name_def)
  have "snd (feishu_webhook sample_lib hook_url clk_evening db_alice_inactive
                (Some ev_text_bad_name)) = db_alice_inactive"
    unfolding feishu_webhook_db [OF istext] sn by (simp add: register_user_Unencodable)
  then have 6: "get_all_users
        (snd (feishu_webhook sample_lib hook_url clk_evening db_alice_inactive
                (Some ev_text_bad_name)))
       = []"
    by (simp add: 1)
  from 1 2 3 4 5 6 show ?thesis by blast
qed

subsection \<open>A check-out button without a completion\<close>

text \<open>
  Claim C10. When the callback handler receives an interactive event whose action is
  \<^verbatim>\<open>checkout\<close> and whose payload has no completion, it answers with the acknowledgement,
  calls \<open>check_out\<close> with completion 0 and the empty work summary, and sends its message to
  the operator. The record of a checked-in operator then has completion 0, and the query
  of the operator shows it.
\<close>

theorem feishu_callback_checkout_default:
  fixes ev :: callback_event and hook :: string and clk :: clock and d :: db
  defines "uid \<equiv> (case operator_user_id ev of None \<Rightarrow> [] | Some u \<Rightarrow> u)"
  defines "uname \<equiv> (case operator_name ev of None \<Rightarrow> unknown_user | Some n \<Rightarrow> n)"
  assumes ty: "cb_type ev = Some ''interactive''"
    and act: "cb_action ev = Some ''checkout''"
    and nocompl: "cb_completion ev = None"
  shows "feishu_callback hook clk d (Some ev)
       = ((resp_ok,
           send_text_message hook (''@'' @ uname @ '' '' @ snd (fst (check_out clk d uid 0 [])))),
          snd (check_out clk d uid 0 []))
   \<and> (\<forall>r. find (for_user_date uid (get_today_date clk)) (attendance d) = Some r \<longrightarrow>
          find (for_user_date uid (get_today_date clk))
            (attendance (snd (feishu_callback hook clk d (Some ev))))
            = Some (r\<lparr>check_out_time := Some (get_current_time clk), completion := Some 0,
                      evening_status := Some evening_done, work_summary := Some []\<rparr>)
          \<and> map_option us_completion
               (get_user_status clk (snd (feishu_callback hook clk d (Some ev))) uid)
             = Some (Some 0))"
proof -
  let ?P = "for_user_date uid (get_today_date clk)"
  let ?f = "\<lambda>r. r\<lparr>check_out_time := Some (get_current_time clk), completion := Some 0,
                    evening_status := Some evening_done, work_summary := Some []\<rparr>"
  have keep: "\<And>r. ?P (?f r) = ?P r"
    by (simp add: for_user_date_def)
  have call: "feishu_callback hook clk d (Some ev)
       = ((resp_ok,
           send_text_message hook (''@'' @ uname @ '' '' @ snd (fst (check_out clk d uid 0 [])))),
          snd (check_out clk d uid 0 []))"
    unfolding feishu_callback_def uid_def uname_def Let_def
    by (simp add: ty act nocompl)
  have att: "attendance (snd (check_out clk d uid 0 []))
       = map (\<lambda>r. if ?P r then ?f r else r) (attendance d)"
    by (simp add: check_out_stored [OF sqlite_int_0])
  have upd: "find ?P (attendance (snd (check_out clk d uid 0 [])))
       = map_option ?f (find ?P (attendance d))"
    unfolding att by (rule find_map_if [where P = ?P and f = ?f, OF keep])
  show ?thesis
  proof (intro conjI allI impI)
    show "feishu_callback hook clk d (Some ev)
       = ((resp_ok,
           send_text_message hook (''@'' @ uname @ '' '' @ snd (fst (check_out clk d uid 0 [])))),
          snd (check_out clk d uid 0 []))"
      by (rule call)
  next
    fix r
    assume r: "find ?P (attendance d) = Some r"
    then show "find ?P (attendance (snd (feishu_callback hook clk d (Some ev)))) = Some (?f r)"
      by (simp add: call upd)
  next
    fix r
    assume r: "find ?P (attendance d) = Some r"
    then show "map_option us_completion
               (get_user_status clk (snd (feishu_callback hook clk d (Some ev))) uid)
             = Some (Some 0)"
      by (simp add: call get_user_status_def upd)
  qed
qed

theorem feishu_callback_checkout_default_witness:
  "cb_type ev_checkout_plain = Some ''interactive''
   \<and> cb_action ev_checkout_plain = Some ''checkout''
   \<and> cb_completion ev_checkout_plain = None
   \<and> (\<exists>r. find (for_user_date ''u1'' (get_today_date clk_evening)) (attendance db_alice) = Some r)
   \<and> fst (fst (feishu_callback hook_url clk_evening db_alice (Some ev_checkout_plain))) = resp_ok
   \<and> map_option us_completion
        (get_user_status clk_evening
           (snd (feishu_callback hook_url clk_evening db_alice (Some ev_checkout_plain))) ''u1'')
       = Some (Some 0)"
proof -
  have ty: "cb_type ev_checkout_plain = Some ''interactive''"
    and act: "cb_action ev_checkout_plain = Some ''checkout''"
    and nocompl: "cb_completion ev_checkout_plain = None"
    by (simp_all add: ev_checkout_plain_def)
  have uid: "(case operator_user_id ev_checkout_plain of None \<Rightarrow> [] | Some u \<Rightarrow> u) = ''u1''"
    by (simp add: ev_checkout_plain_def)
  have rec: "\<exists>r. find (for_user_date ''u1'' (get_today_date clk_evening)) (attendance db_alice)
               = Some r"
    by (simp add: db_alice_def run_def check_in_def insert_attendance_def empty_db_def
        register_user_Str for_user_date_def get_today_date_def get_current_time_def
        clk_morning_def clk_evening_def Let_def)
  note inst = feishu_callback_checkout_default [OF ty act nocompl, of hook_url clk_evening
      db_alice, unfolded uid]
  from inst have ok: "fst (fst (feishu_callback hook_url clk_evening db_alice
      (Some ev_checkout_plain))) = resp_ok"
    by simp
  from inst rec have zero: "map_option us_completion
        (get_user_status clk_evening
           (snd (feishu_callback hook_url clk_evening db_alice (Some ev_checkout_plain))) ''u1'')
       = Some (Some 0)"
    by blast
  from ty act nocompl rec ok zero show ?thesis by blast
qed

end
